theory Spec2Isabelle
  imports Complex_Main
begin

section \<open>Request values\<close>

text \<open>
  The handlers of \<^verbatim>\<open>server.js\<close> read \<^verbatim>\<open>req.body\<close>, the object that the JSON body parser
  produced, and \<^verbatim>\<open>req.params\<close>, the strings matched by the route. A body value is a JSON
  value; \<open>JNum\<close> carries the value of the parsed number. Reading a property that the body
  does not have gives JavaScript's \<^verbatim>\<open>undefined\<close>, written \<open>None\<close> here; a JSON text cannot
  denote \<^verbatim>\<open>undefined\<close>, so a property that the body has is never \<^verbatim>\<open>undefined\<close>.
\<close>

datatype json =
    JNull
  | JBool bool
  | JNum rat
  | JStr string
  | JArr "json list"
  | JObj "(string \<times> json) list"

type_synonym body = "string \<Rightarrow> json option"

text \<open>
  JavaScript's truthiness, as tested by \<^verbatim>\<open>!x\<close>: \<^verbatim>\<open>undefined\<close>, \<^verbatim>\<open>null\<close>, \<^verbatim>\<open>false\<close>, zero and
  the empty string are falsy; every array and every object is truthy, the empty ones too.
\<close>

fun truthy :: "json option \<Rightarrow> bool" where
  "truthy None = False"
| "truthy (Some JNull) = False"
| "truthy (Some (JBool b)) = b"
| "truthy (Some (JNum n)) = (n \<noteq> 0)"
| "truthy (Some (JStr s)) = (s \<noteq> [])"
| "truthy (Some (JArr xs)) = True"
| "truthy (Some (JObj kvs)) = True"

section \<open>Stored documents\<close>

text \<open>
  The values of a stored document: what the schema types String, Date and array of
  String hold after casting, and \<^verbatim>\<open>null\<close>. A date is its time in milliseconds.
\<close>

datatype bson =
    BNull
  | BStr string
  | BDate int
  | BArr "bson list"

datatype ptype = PString | PDate | PStringArray

text \<open>
  \<open>SpaceSchema\<close>, \<open>projectSchema\<close> and \<open>taskSchema\<close>. The three schemas share field names,
  so each field carries the prefix of its record. The fields that are set once, when the
  document is created, and are \<^verbatim>\<open>required\<close> strings, are strings; the fields that an update
  can overwrite hold any stored value. The \<^verbatim>\<open>_id\<close> and the version key that the driver adds
  are left out.
\<close>

record space =
  sp_SpCode :: string
  sp_name :: string

record project_comment =
  pc_comment :: bson
  pc_date :: int

record project =
  pr_SpCode :: string
  pr_projectCode :: string
  pr_name :: bson
  pr_description :: bson
  pr_status :: bson
  pr_teamLead :: bson
  pr_members :: bson
  pr_comments :: "project_comment list"

record task_comment =
  tc_author :: bson
  tc_text :: bson
  tc_timestamp :: int

record task =
  tk_SpCode :: string
  tk_projectId :: string
  tk_taskId :: string
  tk_title :: bson
  tk_status :: bson
  tk_assignedTo :: bson
  tk_priority :: bson
  tk_assignedBy :: bson
  tk_description :: bson
  tk_deadline :: bson
  tk_comments :: "task_comment list"

text \<open>The three collections \<open>Spaces\<close>, \<open>Projects\<close> and \<open>Tasks\<close>, in insertion order.\<close>

record store =
  spaces :: "space list"
  projects :: "project list"
  tasks :: "task list"

section \<open>The document store\<close>

text \<open>
  What the handlers cannot see is a parameter of the model:
  \<^item> \<open>store_fault\<close>: when \<open>Some m\<close>, the driver fails every operation with message \<open>m\<close>
    (no connection, time-out);
  \<^item> \<open>omit_undefined\<close>: whether the object mapper removes the keys of a \<^verbatim>\<open>$set\<close> whose value
    is \<^verbatim>\<open>undefined\<close> before sending it (it does from its version 6 on; before, such a key
    is stored as \<^verbatim>\<open>null\<close>); the version in use is not recorded in the sources;
  \<^item> \<open>schema_cast\<close>: the mapper's cast of a value that does not already have the type of
    its path (a number given for a String, a text given for a Date); \<open>None\<close> when the cast
    throws;
  \<^item> \<open>now\<close>: the value of \<^verbatim>\<open>Date.now()\<close>.
\<close>

record env =
  store_fault :: "string option"
  omit_undefined :: bool
  schema_cast :: "ptype \<Rightarrow> json \<Rightarrow> bson option"
  now :: int

text \<open>
  The error thrown by a store call; the response's \<^verbatim>\<open>details\<close> is its message, which is
  identified with the error here.
\<close>

datatype store_error =
    ValidationError
  | CastError
  | DuplicateKey
  | DocumentNotFound
  | DriverError string

text \<open>A string given for a String path is stored as it is; an array is cast element by element.\<close>

fun cast_path :: "env \<Rightarrow> ptype \<Rightarrow> json \<Rightarrow> bson option" where
  "cast_path e PString (JStr s) = Some (BStr s)"
| "cast_path e PStringArray (JArr xs) =
     map_option BArr
       (those (map (\<lambda>x. case x of JStr s \<Rightarrow> Some (BStr s) | _ \<Rightarrow> schema_cast e PString x) xs))"
| "cast_path e t v = schema_cast e t v"

text \<open>
  A \<^verbatim>\<open>required\<close> String path of a new document: the string stored, or \<open>None\<close> when
  validation fails (the value is missing, its cast fails, or it is empty).
\<close>

definition new_string :: "env \<Rightarrow> json option \<Rightarrow> string option" where
  "new_string e v =
     (case v of
        None \<Rightarrow> None
      | Some j \<Rightarrow>
          (case cast_path e PString j of
             Some (BStr s) \<Rightarrow> if s = [] then None else Some s
           | _ \<Rightarrow> None))"

text \<open>A \<^verbatim>\<open>required\<close> Date path of a new document.\<close>

definition new_date :: "env \<Rightarrow> json option \<Rightarrow> bson option" where
  "new_date e v =
     (case v of
        None \<Rightarrow> None
      | Some j \<Rightarrow>
          (case cast_path e PDate j of
             Some (BDate t) \<Rightarrow> Some (BDate t)
           | _ \<Rightarrow> None))"

text \<open>The \<open>members\<close> path of a new project: not required, an empty array by default.\<close>

definition new_members :: "env \<Rightarrow> json option \<Rightarrow> bson option" where
  "new_members e v =
     (case v of
        None \<Rightarrow> Some (BArr [])
      | Some j \<Rightarrow> cast_path e PStringArray j)"

subsection \<open>Spaces\<close>

text \<open>\<^verbatim>\<open>Space.findOne({ SpCode })\<close>.\<close>

definition Space_findOne :: "env \<Rightarrow> store \<Rightarrow> string \<Rightarrow> store_error + space option" where
  "Space_findOne e st c =
     (case store_fault e of
        Some m \<Rightarrow> Inl (DriverError m)
      | None \<Rightarrow> Inr (find (\<lambda>s. sp_SpCode s = c) (spaces st)))"

text \<open>
  \<^verbatim>\<open>new Space({ SpCode, name })\<close> followed by \<^verbatim>\<open>save()\<close>: the document is validated, then
  inserted; the unique index on \<open>SpCode\<close> rejects a code that a stored space has.
\<close>

definition new_Space :: "env \<Rightarrow> json option \<Rightarrow> json option \<Rightarrow> space option" where
  "new_Space e SpCode name =
     Option.bind (new_string e SpCode) (\<lambda>c.
     Option.bind (new_string e name) (\<lambda>n.
     Some \<lparr>sp_SpCode = c, sp_name = n\<rparr>))"

definition Space_save :: "env \<Rightarrow> store \<Rightarrow> space option \<Rightarrow> store_error + (space \<times> store)" where
  "Space_save e st doc =
     (case doc of
        None \<Rightarrow> Inl ValidationError
      | Some d \<Rightarrow>
          (case store_fault e of
             Some m \<Rightarrow> Inl (DriverError m)
           | None \<Rightarrow>
               if sp_SpCode d \<in> set (map sp_SpCode (spaces st)) then Inl DuplicateKey
               else Inr (d, st\<lparr>spaces := spaces st @ [d]\<rparr>)))"

subsection \<open>Projects\<close>

text \<open>\<^verbatim>\<open>Project.find({ SpCode })\<close> and \<^verbatim>\<open>Project.findOne({ SpCode, projectCode })\<close>.\<close>

definition Project_find :: "env \<Rightarrow> store \<Rightarrow> string \<Rightarrow> store_error + project list" where
  "Project_find e st c =
     (case store_fault e of
        Some m \<Rightarrow> Inl (DriverError m)
      | None \<Rightarrow> Inr (filter (\<lambda>p. pr_SpCode p = c) (projects st)))"

definition Project_findOne :: "env \<Rightarrow> store \<Rightarrow> string \<Rightarrow> string \<Rightarrow> store_error + project option" where
  "Project_findOne e st c pc =
     (case store_fault e of
        Some m \<Rightarrow> Inl (DriverError m)
      | None \<Rightarrow> Inr (find (\<lambda>p. pr_SpCode p = c \<and> pr_projectCode p = pc) (projects st)))"

text \<open>
  \<^verbatim>\<open>new Project({ SpCode, projectCode, name, description, teamLead, members, status })\<close>
  followed by \<^verbatim>\<open>save()\<close>; the unique index is on \<open>projectCode\<close>.
\<close>

definition new_Project ::
  "env \<Rightarrow> json option \<Rightarrow> json option \<Rightarrow> json option \<Rightarrow> json option \<Rightarrow> json option \<Rightarrow>
   json option \<Rightarrow> json option \<Rightarrow> project option" where
  "new_Project e SpCode projectCode name description teamLead members status' =
     Option.bind (new_string e SpCode) (\<lambda>c.
     Option.bind (new_string e projectCode) (\<lambda>pc.
     Option.bind (new_string e name) (\<lambda>n.
     Option.bind (new_string e description) (\<lambda>d.
     Option.bind (new_string e teamLead) (\<lambda>ld.
     Option.bind (new_members e members) (\<lambda>ms.
     Option.bind (new_string e status') (\<lambda>s.
     Some \<lparr>pr_SpCode = c, pr_projectCode = pc, pr_name = BStr n, pr_description = BStr d,
           pr_status = BStr s, pr_teamLead = BStr ld, pr_members = ms, pr_comments = []\<rparr>)))))))"

definition Project_save :: "env \<Rightarrow> store \<Rightarrow> project option \<Rightarrow> store_error + (project \<times> store)" where
  "Project_save e st doc =
     (case doc of
        None \<Rightarrow> Inl ValidationError
      | Some d \<Rightarrow>
          (case store_fault e of
             Some m \<Rightarrow> Inl (DriverError m)
           | None \<Rightarrow>
               if pr_projectCode d \<in> set (map pr_projectCode (projects st)) then Inl DuplicateKey
               else Inr (d, st\<lparr>projects := projects st @ [d]\<rparr>)))"

text \<open>
  The update documents that the handlers send: a \<^verbatim>\<open>$set\<close> of the five fields below, each
  bound to a value or to \<^verbatim>\<open>undefined\<close>, or a \<^verbatim>\<open>$push\<close> of one comment.
\<close>

datatype project_key = K_name | K_description | K_teamLead | K_members | K_status

datatype project_update =
    PSet "(project_key \<times> json option) list"
  | PPush_comment "json option" int

fun project_key_type :: "project_key \<Rightarrow> ptype" where
  "project_key_type K_members = PStringArray"
| "project_key_type k = PString"

fun project_set :: "project_key \<times> bson \<Rightarrow> project \<Rightarrow> project" where
  "project_set (K_name, v) p = p\<lparr>pr_name := v\<rparr>"
| "project_set (K_description, v) p = p\<lparr>pr_description := v\<rparr>"
| "project_set (K_teamLead, v) p = p\<lparr>pr_teamLead := v\<rparr>"
| "project_set (K_members, v) p = p\<lparr>pr_members := v\<rparr>"
| "project_set (K_status, v) p = p\<lparr>pr_status := v\<rparr>"

text \<open>The field of a project that a key of the update names.\<close>

definition project_get :: "project_key \<Rightarrow> project \<Rightarrow> bson" where
  "project_get k p =
     (case k of
        K_name \<Rightarrow> pr_name p
      | K_description \<Rightarrow> pr_description p
      | K_teamLead \<Rightarrow> pr_teamLead p
      | K_members \<Rightarrow> pr_members p
      | K_status \<Rightarrow> pr_status p)"

text \<open>
  The cast of a \<^verbatim>\<open>$set\<close> before it is sent: each value is cast to the type of its path; a
  key bound to \<^verbatim>\<open>undefined\<close> is removed, or sent as \<^verbatim>\<open>null\<close>. \<open>None\<close> when a cast throws.
\<close>

fun castUpdate :: "env \<Rightarrow> ('k \<Rightarrow> ptype) \<Rightarrow> ('k \<times> json option) list \<Rightarrow> ('k \<times> bson) list option" where
  "castUpdate e ty [] = Some []"
| "castUpdate e ty ((k, None) # us) =
     (if omit_undefined e then castUpdate e ty us
      else map_option ((#) (k, BNull)) (castUpdate e ty us))"
| "castUpdate e ty ((k, Some v) # us) =
     (case cast_path e (ty k) v of
        None \<Rightarrow> None
      | Some w \<Rightarrow> map_option ((#) (k, w)) (castUpdate e ty us))"

text \<open>The change that a cast update makes to the document it is applied to.\<close>

definition castProjectUpdate :: "env \<Rightarrow> project_update \<Rightarrow> (project \<Rightarrow> project) option" where
  "castProjectUpdate e u =
     (case u of
        PSet kvs \<Rightarrow> map_option (\<lambda>sets. fold project_set sets) (castUpdate e project_key_type kvs)
      | PPush_comment c t \<Rightarrow>
          (case c of
             None \<Rightarrow> Some (\<lambda>p. p\<lparr>pr_comments := pr_comments p @ [\<lparr>pc_comment = BNull, pc_date = t\<rparr>]\<rparr>)
           | Some j \<Rightarrow>
               map_option
                 (\<lambda>w p. p\<lparr>pr_comments := pr_comments p @ [\<lparr>pc_comment = w, pc_date = t\<rparr>]\<rparr>)
                 (cast_path e PString j)))"

text \<open>
  The first element that satisfies \<open>P\<close> is replaced by its image under \<open>f\<close>; the result is
  the new element with the new list, or \<open>None\<close> when no element satisfies \<open>P\<close>.
\<close>

fun update_first :: "('a \<Rightarrow> bool) \<Rightarrow> ('a \<Rightarrow> 'a) \<Rightarrow> 'a list \<Rightarrow> ('a \<times> 'a list) option" where
  "update_first P f [] = None"
| "update_first P f (x # xs) =
     (if P x then Some (f x, f x # xs)
      else map_option (\<lambda>(y, ys). (y, x # ys)) (update_first P f xs))"

text \<open>
  \<^verbatim>\<open>Project.findOneAndUpdate({ SpCode, projectCode }, update, { new: true })\<close>: the update is
  cast, then the first matching project is changed in the store and returned; \<^verbatim>\<open>null\<close>
  (\<open>None\<close>) when no project matches.
\<close>

definition Project_findOneAndUpdate ::
  "env \<Rightarrow> store \<Rightarrow> string \<Rightarrow> string \<Rightarrow> project_update \<Rightarrow> store_error + (project option \<times> store)" where
  "Project_findOneAndUpdate e st c pc u =
     (case castProjectUpdate e u of
        None \<Rightarrow> Inl CastError
      | Some f \<Rightarrow>
          (case store_fault e of
             Some m \<Rightarrow> Inl (DriverError m)
           | None \<Rightarrow>
               (case update_first (\<lambda>p. pr_SpCode p = c \<and> pr_projectCode p = pc) f (projects st) of
                  None \<Rightarrow> Inr (None, st)
                | Some (p', ps') \<Rightarrow> Inr (Some p', st\<lparr>projects := ps'\<rparr>))))"

subsection \<open>Tasks\<close>

text \<open>\<^verbatim>\<open>Task.find({ SpCode })\<close> and \<^verbatim>\<open>Task.findOne({ SpCode, taskId })\<close>.\<close>

definition Task_find :: "env \<Rightarrow> store \<Rightarrow> string \<Rightarrow> store_error + task list" where
  "Task_find e st c =
     (case store_fault e of
        Some m \<Rightarrow> Inl (DriverError m)
      | None \<Rightarrow> Inr (filter (\<lambda>t. tk_SpCode t = c) (tasks st)))"

definition Task_findOne :: "env \<Rightarrow> store \<Rightarrow> string \<Rightarrow> string \<Rightarrow> store_error + task option" where
  "Task_findOne e st c tid =
     (case store_fault e of
        Some m \<Rightarrow> Inl (DriverError m)
      | None \<Rightarrow> Inr (find (\<lambda>t. tk_SpCode t = c \<and> tk_taskId t = tid) (tasks st)))"

text \<open>
  \<^verbatim>\<open>new Task({ SpCode, projectId, taskId, title, status, assignedTo, priority, assignedBy,
  description, deadline })\<close> followed by \<^verbatim>\<open>save()\<close>; the unique index is on \<open>taskId\<close>.
\<close>

definition new_Task ::
  "env \<Rightarrow> json option \<Rightarrow> json option \<Rightarrow> json option \<Rightarrow> json option \<Rightarrow> json option \<Rightarrow>
   json option \<Rightarrow> json option \<Rightarrow> json option \<Rightarrow> json option \<Rightarrow> json option \<Rightarrow> task option" where
  "new_Task e SpCode projectId taskId title status' assignedTo priority assignedBy description deadline =
     Option.bind (new_string e SpCode) (\<lambda>c.
     Option.bind (new_string e projectId) (\<lambda>pid.
     Option.bind (new_string e taskId) (\<lambda>tid.
     Option.bind (new_string e title) (\<lambda>ti.
     Option.bind (new_string e status') (\<lambda>s.
     Option.bind (new_string e assignedTo) (\<lambda>ato.
     Option.bind (new_string e priority) (\<lambda>pri.
     Option.bind (new_string e assignedBy) (\<lambda>aby.
     Option.bind (new_string e description) (\<lambda>d.
     Option.bind (new_date e deadline) (\<lambda>dl.
     Some \<lparr>tk_SpCode = c, tk_projectId = pid, tk_taskId = tid, tk_title = BStr ti,
           tk_status = BStr s, tk_assignedTo = BStr ato, tk_priority = BStr pri,
           tk_assignedBy = BStr aby, tk_description = BStr d, tk_deadline = dl,
           tk_comments = []\<rparr>))))))))))"

definition Task_save :: "env \<Rightarrow> store \<Rightarrow> task option \<Rightarrow> store_error + (task \<times> store)" where
  "Task_save e st doc =
     (case doc of
        None \<Rightarrow> Inl ValidationError
      | Some d \<Rightarrow>
          (case store_fault e of
             Some m \<Rightarrow> Inl (DriverError m)
           | None \<Rightarrow>
               if tk_taskId d \<in> set (map tk_taskId (tasks st)) then Inl DuplicateKey
               else Inr (d, st\<lparr>tasks := tasks st @ [d]\<rparr>)))"

datatype task_key =
  K_title | K_tstatus | K_assignedTo | K_priority | K_assignedBy | K_tdescription | K_deadline

fun task_key_type :: "task_key \<Rightarrow> ptype" where
  "task_key_type K_deadline = PDate"
| "task_key_type k = PString"

fun task_set :: "task_key \<times> bson \<Rightarrow> task \<Rightarrow> task" where
  "task_set (K_title, v) t = t\<lparr>tk_title := v\<rparr>"
| "task_set (K_tstatus, v) t = t\<lparr>tk_status := v\<rparr>"
| "task_set (K_assignedTo, v) t = t\<lparr>tk_assignedTo := v\<rparr>"
| "task_set (K_priority, v) t = t\<lparr>tk_priority := v\<rparr>"
| "task_set (K_assignedBy, v) t = t\<lparr>tk_assignedBy := v\<rparr>"
| "task_set (K_tdescription, v) t = t\<lparr>tk_description := v\<rparr>"
| "task_set (K_deadline, v) t = t\<lparr>tk_deadline := v\<rparr>"

text \<open>\<^verbatim>\<open>Task.findOneAndUpdate({ SpCode, taskId }, { $set: ... }, { new: true })\<close>.\<close>

definition Task_findOneAndUpdate ::
  "env \<Rightarrow> store \<Rightarrow> string \<Rightarrow> string \<Rightarrow> (task_key \<times> json option) list \<Rightarrow>
   store_error + (task option \<times> store)" where
  "Task_findOneAndUpdate e st c tid kvs =
     (case castUpdate e task_key_type kvs of
        None \<Rightarrow> Inl CastError
      | Some sets \<Rightarrow>
          (case store_fault e of
             Some m \<Rightarrow> Inl (DriverError m)
           | None \<Rightarrow>
               (case update_first (\<lambda>t. tk_SpCode t = c \<and> tk_taskId t = tid) (fold task_set sets) (tasks st) of
                  None \<Rightarrow> Inr (None, st)
                | Some (t', ts') \<Rightarrow> Inr (Some t', st\<lparr>tasks := ts'\<rparr>))))"

text \<open>
  \<^verbatim>\<open>task.comments.push({ author, text, timestamp })\<close> on a task that \<open>findOne\<close> returned: the
  new comment is cast; a failed cast is kept with the document and reported by \<open>save\<close>.
\<close>

definition comment_field :: "env \<Rightarrow> json option \<Rightarrow> bson option" where
  "comment_field e v = (case v of None \<Rightarrow> Some BNull | Some j \<Rightarrow> cast_path e PString j)"

definition comments_push :: "env \<Rightarrow> task \<Rightarrow> json option \<Rightarrow> json option \<Rightarrow> int \<Rightarrow> task option" where
  "comments_push e t author text' timestamp =
     Option.bind (comment_field e author) (\<lambda>a.
     Option.bind (comment_field e text') (\<lambda>x.
     Some (t\<lparr>tk_comments := tk_comments t @ [\<lparr>tc_author = a, tc_text = x, tc_timestamp = timestamp\<rparr>]\<rparr>)))"

text \<open>
  \<^verbatim>\<open>task.save()\<close> on a task that was read from the store and changed: after validation,
  the stored copy of that task (the first one with its codes) is replaced; the call throws
  when the store no longer has the task.
\<close>

definition Task_save_changed :: "env \<Rightarrow> store \<Rightarrow> task option \<Rightarrow> store_error + (task \<times> store)" where
  "Task_save_changed e st doc =
     (case doc of
        None \<Rightarrow> Inl ValidationError
      | Some d \<Rightarrow>
          (case store_fault e of
             Some m \<Rightarrow> Inl (DriverError m)
           | None \<Rightarrow>
               (case update_first (\<lambda>t. tk_SpCode t = tk_SpCode d \<and> tk_taskId t = tk_taskId d) (\<lambda>t. d) (tasks st) of
                  None \<Rightarrow> Inl DocumentNotFound
                | Some (t', ts') \<Rightarrow> Inr (d, st\<lparr>tasks := ts'\<rparr>))))"

section \<open>Responses\<close>

text \<open>
  The JSON sent back: an error object \<^verbatim>\<open>{ error, details }\<close>, where \<open>None\<close> stands for an
  object without \<^verbatim>\<open>details\<close>, or a document, or an array of documents. A response sent
  without \<^verbatim>\<open>res.status\<close> has status 200.
\<close>

datatype payload =
    ErrorBody string "store_error option"
  | SpaceBody space
  | ProjectBody project
  | TaskBody task
  | ProjectList "project list"
  | TaskList "task list"

record response =
  status :: nat
  payload :: payload

section \<open>Route handlers\<close>

text \<open>
  A handler takes the environment, the store, the parameters of its route and the body,
  and gives the response with the store it leaves. The \<open>Inl\<close> branch of a store call is the
  \<^verbatim>\<open>catch\<close> block of the handler.
\<close>

text \<open>\<^verbatim>\<open>GET /api/space/:SpCode\<close>\<close>

definition get_space_handler :: "env \<Rightarrow> store \<Rightarrow> string \<Rightarrow> response \<times> store" where
  "get_space_handler e st SpCode_param =
     (case Space_findOne e st SpCode_param of
        Inl err \<Rightarrow> (\<lparr>status = 500, payload = ErrorBody ''Error fetching Space details'' None\<rparr>, st)
      | Inr None \<Rightarrow> (\<lparr>status = 404, payload = ErrorBody ''Space not found'' None\<rparr>, st)
      | Inr (Some sp) \<Rightarrow> (\<lparr>status = 200, payload = SpaceBody sp\<rparr>, st))"

text \<open>\<^verbatim>\<open>POST /api/space/create\<close>\<close>

definition create_space_handler :: "env \<Rightarrow> store \<Rightarrow> body \<Rightarrow> response \<times> store" where
  "create_space_handler e st b =
     (let SpCode = b ''SpCode''; name = b ''name'' in
      if \<not> truthy SpCode \<or> \<not> truthy name
      then (\<lparr>status = 400, payload = ErrorBody ''Missing required fields'' None\<rparr>, st)
      else
        (case Space_save e st (new_Space e SpCode name) of
           Inr (newSpace, st') \<Rightarrow> (\<lparr>status = 201, payload = SpaceBody newSpace\<rparr>, st')
         | Inl err \<Rightarrow> (\<lparr>status = 400, payload = ErrorBody ''Error creating Space'' (Some err)\<rparr>, st)))"

text \<open>\<^verbatim>\<open>GET /api/space/:SpCode/projects\<close>\<close>

definition list_projects_handler :: "env \<Rightarrow> store \<Rightarrow> string \<Rightarrow> response \<times> store" where
  "list_projects_handler e st SpCode_param =
     (case Project_find e st SpCode_param of
        Inl err \<Rightarrow> (\<lparr>status = 500, payload = ErrorBody ''Failed to fetch projects'' None\<rparr>, st)
      | Inr ps \<Rightarrow> (\<lparr>status = 200, payload = ProjectList ps\<rparr>, st))"

text \<open>\<^verbatim>\<open>GET /api/space/:SpCode/projects/:projectCode\<close>\<close>

definition get_project_handler :: "env \<Rightarrow> store \<Rightarrow> string \<Rightarrow> string \<Rightarrow> response \<times> store" where
  "get_project_handler e st SpCode_param projectCode_param =
     (case Project_findOne e st SpCode_param projectCode_param of
        Inl err \<Rightarrow> (\<lparr>status = 500, payload = ErrorBody ''Error fetching project details'' None\<rparr>, st)
      | Inr None \<Rightarrow> (\<lparr>status = 404, payload = ErrorBody ''Project not found'' None\<rparr>, st)
      | Inr (Some p) \<Rightarrow> (\<lparr>status = 200, payload = ProjectBody p\<rparr>, st))"

text \<open>
  \<^verbatim>\<open>POST /api/space/:SpCode/projects/create\<close>. The route parameter is an argument of the
  handler, which never reads it.
\<close>

definition create_project_handler :: "env \<Rightarrow> store \<Rightarrow> string \<Rightarrow> body \<Rightarrow> response \<times> store" where
  "create_project_handler e st SpCode_param b =
     (let SpCode = b ''SpCode''; projectCode = b ''projectCode''; name = b ''name'';
          description = b ''description''; teamLead = b ''teamLead''; members = b ''members'';
          status' = b ''status'' in
      if \<not> truthy SpCode \<or> \<not> truthy projectCode \<or> \<not> truthy name \<or> \<not> truthy description \<or>
         \<not> truthy teamLead \<or> \<not> truthy members \<or> \<not> truthy status'
      then (\<lparr>status = 400, payload = ErrorBody ''Missing required fields'' None\<rparr>, st)
      else
        (case Project_save e st
                (new_Project e SpCode projectCode name description teamLead members status') of
           Inr (newProject, st') \<Rightarrow> (\<lparr>status = 201, payload = ProjectBody newProject\<rparr>, st')
         | Inl err \<Rightarrow> (\<lparr>status = 400, payload = ErrorBody ''Error creating project'' (Some err)\<rparr>, st)))"

text \<open>
  \<^verbatim>\<open>PUT /api/space/:SpCode/projects/:projectCode/update\<close>. The object literal
  \<^verbatim>\<open>{ name, description, teamLead, members, status }\<close> has the five keys whatever the body
  holds.
\<close>

definition project_update_doc :: "body \<Rightarrow> (project_key \<times> json option) list" where
  "project_update_doc b =
     [(K_name, b ''name''), (K_description, b ''description''), (K_teamLead, b ''teamLead''),
      (K_members, b ''members''), (K_status, b ''status'')]"

definition update_project_handler ::
  "env \<Rightarrow> store \<Rightarrow> string \<Rightarrow> string \<Rightarrow> body \<Rightarrow> response \<times> store" where
  "update_project_handler e st SpCode_param projectCode_param b =
     (if \<not> truthy (b ''name'') \<and> \<not> truthy (b ''description'') \<and> \<not> truthy (b ''teamLead'') \<and>
         \<not> truthy (b ''members'') \<and> \<not> truthy (b ''status'')
      then (\<lparr>status = 400, payload = ErrorBody ''No fields to update'' None\<rparr>, st)
      else
        (case Project_findOneAndUpdate e st SpCode_param projectCode_param
                (PSet (project_update_doc b)) of
           Inl err \<Rightarrow> (\<lparr>status = 400, payload = ErrorBody ''Error updating project'' (Some err)\<rparr>, st)
         | Inr (None, st') \<Rightarrow> (\<lparr>status = 404, payload = ErrorBody ''Project not found'' None\<rparr>, st')
         | Inr (Some updatedProject, st') \<Rightarrow>
             (\<lparr>status = 200, payload = ProjectBody updatedProject\<rparr>, st')))"

text \<open>\<^verbatim>\<open>GET /api/space/:SpCode/tasks\<close>\<close>

definition list_tasks_handler :: "env \<Rightarrow> store \<Rightarrow> string \<Rightarrow> response \<times> store" where
  "list_tasks_handler e st SpCode_param =
     (case Task_find e st SpCode_param of
        Inl err \<Rightarrow> (\<lparr>status = 500, payload = ErrorBody ''Failed to fetch tasks'' None\<rparr>, st)
      | Inr ts \<Rightarrow> (\<lparr>status = 200, payload = TaskList ts\<rparr>, st))"

text \<open>\<^verbatim>\<open>GET /api/space/:SpCode/tasks/:taskId\<close>\<close>

definition get_task_handler :: "env \<Rightarrow> store \<Rightarrow> string \<Rightarrow> string \<Rightarrow> response \<times> store" where
  "get_task_handler e st SpCode_param taskId_param =
     (case Task_findOne e st SpCode_param taskId_param of
        Inl err \<Rightarrow> (\<lparr>status = 500, payload = ErrorBody ''Error fetching task details'' None\<rparr>, st)
      | Inr None \<Rightarrow> (\<lparr>status = 404, payload = ErrorBody ''Task not found'' None\<rparr>, st)
      | Inr (Some t) \<Rightarrow> (\<lparr>status = 200, payload = TaskBody t\<rparr>, st))"

text \<open>\<^verbatim>\<open>POST /api/space/:SpCode/tasks/create\<close>; its \<^verbatim>\<open>catch\<close> answers with status 500.\<close>

definition create_task_handler :: "env \<Rightarrow> store \<Rightarrow> string \<Rightarrow> body \<Rightarrow> response \<times> store" where
  "create_task_handler e st SpCode_param b =
     (let SpCode = b ''SpCode''; projectId = b ''projectId''; taskId = b ''taskId'';
          title = b ''title''; status' = b ''status''; assignedTo = b ''assignedTo'';
          priority = b ''priority''; assignedBy = b ''assignedBy'';
          description = b ''description''; deadline = b ''deadline'' in
      if \<not> truthy SpCode \<or> \<not> truthy projectId \<or> \<not> truthy taskId \<or> \<not> truthy title \<or>
         \<not> truthy status' \<or> \<not> truthy assignedTo \<or> \<not> truthy priority \<or> \<not> truthy assignedBy \<or>
         \<not> truthy description \<or> \<not> truthy deadline
      then (\<lparr>status = 400, payload = ErrorBody ''Missing required fields'' None\<rparr>, st)
      else
        (case Task_save e st
                (new_Task e SpCode projectId taskId title status' assignedTo priority assignedBy
                   description deadline) of
           Inr (newTask, st') \<Rightarrow> (\<lparr>status = 201, payload = TaskBody newTask\<rparr>, st')
         | Inl err \<Rightarrow> (\<lparr>status = 500, payload = ErrorBody ''Error creating task'' (Some err)\<rparr>, st)))"

text \<open>\<^verbatim>\<open>PUT /api/space/:SpCode/tasks/:taskId/update\<close>\<close>

definition task_update_doc :: "body \<Rightarrow> (task_key \<times> json option) list" where
  "task_update_doc b =
     [(K_title, b ''title''), (K_tstatus, b ''status''), (K_assignedTo, b ''assignedTo''),
      (K_priority, b ''priority''), (K_assignedBy, b ''assignedBy''),
      (K_tdescription, b ''description''), (K_deadline, b ''deadline'')]"

definition update_task_handler ::
  "env \<Rightarrow> store \<Rightarrow> string \<Rightarrow> string \<Rightarrow> body \<Rightarrow> response \<times> store" where
  "update_task_handler e st SpCode_param taskId_param b =
     (if \<not> truthy (b ''title'') \<and> \<not> truthy (b ''status'') \<and> \<not> truthy (b ''assignedTo'') \<and>
         \<not> truthy (b ''priority'') \<and> \<not> truthy (b ''assignedBy'') \<and> \<not> truthy (b ''description'') \<and>
         \<not> truthy (b ''deadline'')
      then (\<lparr>status = 400, payload = ErrorBody ''No fields to update'' None\<rparr>, st)
      else
        (case Task_findOneAndUpdate e st SpCode_param taskId_param (task_update_doc b) of
           Inl err \<Rightarrow> (\<lparr>status = 400, payload = ErrorBody ''Error updating task'' (Some err)\<rparr>, st)
         | Inr (None, st') \<Rightarrow> (\<lparr>status = 404, payload = ErrorBody ''Task not found'' None\<rparr>, st')
         | Inr (Some updatedTask, st') \<Rightarrow> (\<lparr>status = 200, payload = TaskBody updatedTask\<rparr>, st')))"

text \<open>\<^verbatim>\<open>POST /api/space/:SpCode/projects/:projectCode/comments\<close>\<close>

definition add_project_comment_handler ::
  "env \<Rightarrow> store \<Rightarrow> string \<Rightarrow> string \<Rightarrow> body \<Rightarrow> response \<times> store" where
  "add_project_comment_handler e st SpCode_param projectCode_param b =
     (let comment = b ''comment'' in
      if \<not> truthy comment
      then (\<lparr>status = 400, payload = ErrorBody ''Comment is required'' None\<rparr>, st)
      else
        (case Project_findOneAndUpdate e st SpCode_param projectCode_param
                (PPush_comment comment (now e)) of
           Inl err \<Rightarrow>
             (\<lparr>status = 400, payload = ErrorBody ''Error adding comment to project'' (Some err)\<rparr>, st)
         | Inr (None, st') \<Rightarrow> (\<lparr>status = 404, payload = ErrorBody ''Project not found'' None\<rparr>, st')
         | Inr (Some p, st') \<Rightarrow> (\<lparr>status = 200, payload = ProjectBody p\<rparr>, st')))"

text \<open>\<^verbatim>\<open>POST /api/space/:SpCode/tasks/:taskId/comments\<close>\<close>

definition add_task_comment_handler ::
  "env \<Rightarrow> store \<Rightarrow> string \<Rightarrow> string \<Rightarrow> body \<Rightarrow> response \<times> store" where
  "add_task_comment_handler e st SpCode_param taskId_param b =
     (let author = b ''author''; text' = b ''text'' in
      if \<not> truthy author \<or> \<not> truthy text'
      then (\<lparr>status = 400, payload = ErrorBody ''Author, and text are required'' None\<rparr>, st)
      else
        (case Task_findOne e st SpCode_param taskId_param of
           Inl err \<Rightarrow>
             (\<lparr>status = 400, payload = ErrorBody ''Error adding comment to task'' (Some err)\<rparr>, st)
         | Inr None \<Rightarrow> (\<lparr>status = 404, payload = ErrorBody ''Task not found'' None\<rparr>, st)
         | Inr (Some t) \<Rightarrow>
             (case Task_save_changed e st (comments_push e t author text' (now e)) of
                Inl err \<Rightarrow>
                  (\<lparr>status = 400, payload = ErrorBody ''Error adding comment to task'' (Some err)\<rparr>, st)
              | Inr (t', st') \<Rightarrow> (\<lparr>status = 200, payload = TaskBody t'\<rparr>, st'))))"

section \<open>Sample environment and requests\<close>

text \<open>
  An environment in which the store answers, \<^verbatim>\<open>undefined\<close> keys are removed from updates,
  and the only casts beyond those of \<open>cast_path\<close> are \<^verbatim>\<open>null\<close> to \<^verbatim>\<open>null\<close> and a whole number
  of milliseconds to a date. \<open>sample_env_down\<close> is the same with a store that fails.
\<close>

definition sample_cast :: "ptype \<Rightarrow> json \<Rightarrow> bson option" where
  "sample_cast t v =
     (case v of
        JNull \<Rightarrow> Some BNull
      | JNum n \<Rightarrow> if t = PDate \<and> of_int \<lfloor>n\<rfloor> = n then Some (BDate \<lfloor>n\<rfloor>) else None
      | _ \<Rightarrow> None)"

definition sample_env :: env where
  "sample_env =
     \<lparr>store_fault = None, omit_undefined = True, schema_cast = sample_cast, now = 1700000000000\<rparr>"

definition sample_env_down :: env where
  "sample_env_down = sample_env\<lparr>store_fault := Some ''connection refused''\<rparr>"

definition empty_store :: store where
  "empty_store = \<lparr>spaces = [], projects = [], tasks = []\<rparr>"

definition body_of :: "(string \<times> json) list \<Rightarrow> body" where
  "body_of kvs = map_of kvs"

definition sample_space_body :: body where
  "sample_space_body = body_of [(''SpCode'', JStr ''W1''), (''name'', JStr ''Acme'')]"

definition sample_project_body :: "json \<Rightarrow> body" where
  "sample_project_body members =
     body_of [(''SpCode'', JStr ''W1''), (''projectCode'', JStr ''P1''), (''name'', JStr ''Site''),
              (''description'', JStr ''New site''), (''teamLead'', JStr ''ann''),
              (''members'', members), (''status'', JStr ''open'')]"

definition sample_project :: project where
  "sample_project =
     \<lparr>pr_SpCode = ''W1'', pr_projectCode = ''P1'', pr_name = BStr ''Site'',
      pr_description = BStr ''New site'', pr_status = BStr ''open'', pr_teamLead = BStr ''ann'',
      pr_members = BArr [BStr ''bob''], pr_comments = []\<rparr>"

definition sample_task_body :: body where
  "sample_task_body =
     body_of [(''SpCode'', JStr ''W1''), (''projectId'', JStr ''P9''), (''taskId'', JStr ''T1''),
              (''title'', JStr ''Draft''), (''status'', JStr ''todo''), (''assignedTo'', JStr ''bob''),
              (''priority'', JStr ''high''), (''assignedBy'', JStr ''ann''),
              (''description'', JStr ''Write it''), (''deadline'', JNum 1700000600000)]"

definition sample_task :: task where
  "sample_task =
     \<lparr>tk_SpCode = ''W1'', tk_projectId = ''P9'', tk_taskId = ''T1'', tk_title = BStr ''Draft'',
      tk_status = BStr ''todo'', tk_assignedTo = BStr ''bob'', tk_priority = BStr ''high'',
      tk_assignedBy = BStr ''ann'', tk_description = BStr ''Write it'',
      tk_deadline = BDate 1700000600000, tk_comments = []\<rparr>"

definition sample_store :: store where
  "sample_store =
     \<lparr>spaces = [\<lparr>sp_SpCode = ''W1'', sp_name = ''Acme''\<rparr>], projects = [sample_project],
      tasks = [sample_task]\<rparr>"

text \<open>A body with the fields of every route.\<close>

definition sample_full_body :: body where
  "sample_full_body =
     body_of [(''SpCode'', JStr ''W1''), (''name'', JStr ''Acme''), (''projectCode'', JStr ''P2''),
              (''description'', JStr ''Second''), (''teamLead'', JStr ''ann''),
              (''members'', JArr [JStr ''bob'']), (''status'', JStr ''open''),
              (''projectId'', JStr ''P2''), (''taskId'', JStr ''T2''), (''title'', JStr ''Plan''),
              (''assignedTo'', JStr ''bob''), (''priority'', JStr ''low''),
              (''assignedBy'', JStr ''ann''), (''deadline'', JNum 1700000600000),
              (''comment'', JStr ''fine''), (''author'', JStr ''ann''), (''text'', JStr ''hello'')]"

section \<open>Properties of the handlers\<close>

subsection \<open>Creating a project: required fields\<close>

text \<open>
  Claim C1, as the code has it. When one of \<open>SpCode\<close>, \<open>projectCode\<close>, \<open>name\<close>,
  \<open>description\<close>, \<open>teamLead\<close>, \<open>members\<close>, \<open>status\<close> is absent from the body or falsy
  (\<^verbatim>\<open>null\<close>, \<^verbatim>\<open>false\<close>, zero, the empty string), create-project answers 400 with
  \<^verbatim>\<open>Missing required fields\<close> and the store is unchanged. An empty \<open>members\<close> array is not
  falsy: when the other six fields are non-empty strings, the project code is new and the
  store answers, a request with \<open>members = []\<close> is answered 201 and the project is stored
  with no members.
\<close>

theorem create_project_missing_fields:
  "(\<not> truthy (b ''SpCode'') \<or> \<not> truthy (b ''projectCode'') \<or> \<not> truthy (b ''name'') \<or>
    \<not> truthy (b ''description'') \<or> \<not> truthy (b ''teamLead'') \<or> \<not> truthy (b ''members'') \<or>
    \<not> truthy (b ''status'') \<longrightarrow>
      create_project_handler e st p b =
        (\<lparr>status = 400, payload = ErrorBody ''Missing required fields'' None\<rparr>, st)) \<and>
   (store_fault e = None \<and>
    b ''SpCode'' = Some (JStr c) \<and> b ''projectCode'' = Some (JStr pc) \<and> b ''name'' = Some (JStr n) \<and>
    b ''description'' = Some (JStr d) \<and> b ''teamLead'' = Some (JStr ld) \<and>
    b ''members'' = Some (JArr []) \<and> b ''status'' = Some (JStr s) \<and>
    c \<noteq> [] \<and> pc \<noteq> [] \<and> n \<noteq> [] \<and> d \<noteq> [] \<and> ld \<noteq> [] \<and> s \<noteq> [] \<and>
    pc \<notin> set (map pr_projectCode (projects st)) \<longrightarrow>
      create_project_handler e st p b =
        (\<lparr>status = 201,
          payload = ProjectBody
            \<lparr>pr_SpCode = c, pr_projectCode = pc, pr_name = BStr n, pr_description = BStr d,
             pr_status = BStr s, pr_teamLead = BStr ld, pr_members = BArr [], pr_comments = []\<rparr>\<rparr>,
         st\<lparr>projects := projects st @
            [\<lparr>pr_SpCode = c, pr_projectCode = pc, pr_name = BStr n, pr_description = BStr d,
              pr_status = BStr s, pr_teamLead = BStr ld, pr_members = BArr [], pr_comments = []\<rparr>]\<rparr>))"
proof (intro conjI impI)
  assume "\<not> truthy (b ''SpCode'') \<or> \<not> truthy (b ''projectCode'') \<or> \<not> truthy (b ''name'') \<or>
    \<not> truthy (b ''description'') \<or> \<not> truthy (b ''teamLead'') \<or> \<not> truthy (b ''members'') \<or>
    \<not> truthy (b ''status'')"
  then show "create_project_handler e st p b =
        (\<lparr>status = 400, payload = ErrorBody ''Missing required fields'' None\<rparr>, st)"
    unfolding create_project_handler_def Let_def by (simp only: if_True)
next
  assume h: "store_fault e = None \<and>
    b ''SpCode'' = Some (JStr c) \<and> b ''projectCode'' = Some (JStr pc) \<and> b ''name'' = Some (JStr n) \<and>
    b ''description'' = Some (JStr d) \<and> b ''teamLead'' = Some (JStr ld) \<and>
    b ''members'' = Some (JArr []) \<and> b ''status'' = Some (JStr s) \<and>
    c \<noteq> [] \<and> pc \<noteq> [] \<and> n \<noteq> [] \<and> d \<noteq> [] \<and> ld \<noteq> [] \<and> s \<noteq> [] \<and>
    pc \<notin> set (map pr_projectCode (projects st))"
  then show "create_project_handler e st p b =
        (\<lparr>status = 201,
          payload = ProjectBody
            \<lparr>pr_SpCode = c, pr_projectCode = pc, pr_name = BStr n, pr_description = BStr d,
             pr_status = BStr s, pr_teamLead = BStr ld, pr_members = BArr [], pr_comments = []\<rparr>\<rparr>,
         st\<lparr>projects := projects st @
            [\<lparr>pr_SpCode = c, pr_projectCode = pc, pr_name = BStr n, pr_description = BStr d,
              pr_status = BStr s, pr_teamLead = BStr ld, pr_members = BArr [], pr_comments = []\<rparr>]\<rparr>)"
    by (simp add: create_project_handler_def Project_save_def new_Project_def new_string_def
        new_members_def)
qed

text \<open>
  An instance: the request whose \<open>members\<close> is the empty string is rejected, the request
  whose \<open>members\<close> is the empty array is not.
\<close>

theorem create_project_missing_fields_witness:
  "create_project_handler sample_env empty_store ''W1'' (sample_project_body (JStr [])) =
     (\<lparr>status = 400, payload = ErrorBody ''Missing required fields'' None\<rparr>, empty_store) \<and>
   status (fst (create_project_handler sample_env empty_store ''W1'' (sample_project_body (JArr [])))) =
     201"
  using create_project_missing_fields [where b = "sample_project_body (JStr [])" and e = sample_env
      and st = empty_store and p = "''W1''"]
    create_project_missing_fields [where b = "sample_project_body (JArr [])" and e = sample_env
      and st = empty_store and p = "''W1''" and c = "''W1''" and pc = "''P1''" and n = "''Site''"
      and d = "''New site''" and ld = "''ann''" and s = "''open''"]
  by (simp add: sample_project_body_def body_of_def sample_env_def empty_store_def)

text \<open>
  Against C1 as stated: the request with \<open>members = []\<close> is not rejected; the project is
  stored.
\<close>

theorem create_project_empty_members_counterexample:
  "create_project_handler sample_env empty_store ''W1'' (sample_project_body (JArr [])) =
     (\<lparr>status = 201, payload = ProjectBody (sample_project\<lparr>pr_members := BArr []\<rparr>)\<rparr>,
      empty_store\<lparr>projects := [sample_project\<lparr>pr_members := BArr []\<rparr>]\<rparr>)"
  by (simp add: create_project_handler_def Project_save_def new_Project_def new_string_def
      new_members_def sample_project_body_def body_of_def sample_env_def empty_store_def
      sample_project_def)

subsection \<open>Updates without fields\<close>

text \<open>
  Claim C4. When the body of a project update has none of \<open>name\<close>, \<open>description\<close>,
  \<open>teamLead\<close>, \<open>members\<close>, \<open>status\<close>, and when the body of a task update has none of
  \<open>title\<close>, \<open>status\<close>, \<open>assignedTo\<close>, \<open>priority\<close>, \<open>assignedBy\<close>, \<open>description\<close>,
  \<open>deadline\<close> (the empty body in particular), the handler answers 400 with
  \<^verbatim>\<open>No fields to update\<close> and the store is unchanged, whatever the store holds and whether
  or not it answers.
\<close>

theorem update_without_fields:
  "(b ''name'' = None \<and> b ''description'' = None \<and> b ''teamLead'' = None \<and>
    b ''members'' = None \<and> b ''status'' = None \<longrightarrow>
      update_project_handler e st c pc b =
        (\<lparr>status = 400, payload = ErrorBody ''No fields to update'' None\<rparr>, st)) \<and>
   (b ''title'' = None \<and> b ''status'' = None \<and> b ''assignedTo'' = None \<and> b ''priority'' = None \<and>
    b ''assignedBy'' = None \<and> b ''description'' = None \<and> b ''deadline'' = None \<longrightarrow>
      update_task_handler e st c tid b =
        (\<lparr>status = 400, payload = ErrorBody ''No fields to update'' None\<rparr>, st))"
  by (simp add: update_project_handler_def update_task_handler_def)

text \<open>An instance: the empty body, sent for a stored project and for a stored task.\<close>

theorem update_without_fields_witness:
  "update_project_handler sample_env (empty_store\<lparr>projects := [sample_project]\<rparr>) ''W1'' ''P1'' (body_of []) =
     (\<lparr>status = 400, payload = ErrorBody ''No fields to update'' None\<rparr>,
      empty_store\<lparr>projects := [sample_project]\<rparr>) \<and>
   update_task_handler sample_env (empty_store\<lparr>tasks := [sample_task]\<rparr>) ''W1'' ''T1'' (body_of []) =
     (\<lparr>status = 400, payload = ErrorBody ''No fields to update'' None\<rparr>,
      empty_store\<lparr>tasks := [sample_task]\<rparr>)"
  using update_without_fields [of "body_of []" sample_env "empty_store\<lparr>projects := [sample_project]\<rparr>" "''W1''" "''P1''"]
    update_without_fields [of "body_of []" sample_env "empty_store\<lparr>tasks := [sample_task]\<rparr>" "''W1''" _ "''T1''"]
  by (simp add: body_of_def)

subsection \<open>Creating and reading a space\<close>

lemma find_append_fresh:
  "c \<notin> set (map f xs) \<Longrightarrow> find (\<lambda>s. f s = c) (xs @ [d]) = (if f d = c then Some d else None)"
  by (induction xs) auto

text \<open>
  Claim C5. When the store answers, creating a space with a non-empty code that no stored
  space has, and a non-empty name, answers 201 with the created space and stores it; reading
  that code afterwards answers 200 with the same space. Creating a space with a code that a
  stored space has answers 400 and leaves the store unchanged.
\<close>

theorem create_then_get_space:
  "(store_fault e = None \<and> b ''SpCode'' = Some (JStr c) \<and> b ''name'' = Some (JStr n) \<and>
    c \<noteq> [] \<and> n \<noteq> [] \<and> c \<notin> set (map sp_SpCode (spaces st)) \<longrightarrow>
      create_space_handler e st b =
        (\<lparr>status = 201, payload = SpaceBody \<lparr>sp_SpCode = c, sp_name = n\<rparr>\<rparr>,
         st\<lparr>spaces := spaces st @ [\<lparr>sp_SpCode = c, sp_name = n\<rparr>]\<rparr>) \<and>
      get_space_handler e (st\<lparr>spaces := spaces st @ [\<lparr>sp_SpCode = c, sp_name = n\<rparr>]\<rparr>) c =
        (\<lparr>status = 200, payload = SpaceBody \<lparr>sp_SpCode = c, sp_name = n\<rparr>\<rparr>,
         st\<lparr>spaces := spaces st @ [\<lparr>sp_SpCode = c, sp_name = n\<rparr>]\<rparr>)) \<and>
   (b ''SpCode'' = Some (JStr c) \<and> c \<in> set (map sp_SpCode (spaces st)) \<longrightarrow>
      status (fst (create_space_handler e st b)) = 400 \<and>
      snd (create_space_handler e st b) = st)"
proof (intro conjI impI)
  assume h: "store_fault e = None \<and> b ''SpCode'' = Some (JStr c) \<and> b ''name'' = Some (JStr n) \<and>
    c \<noteq> [] \<and> n \<noteq> [] \<and> c \<notin> set (map sp_SpCode (spaces st))"
  then show created: "create_space_handler e st b =
        (\<lparr>status = 201, payload = SpaceBody \<lparr>sp_SpCode = c, sp_name = n\<rparr>\<rparr>,
         st\<lparr>spaces := spaces st @ [\<lparr>sp_SpCode = c, sp_name = n\<rparr>]\<rparr>)"
    by (simp add: create_space_handler_def Space_save_def new_Space_def new_string_def)
  from h show "get_space_handler e (st\<lparr>spaces := spaces st @ [\<lparr>sp_SpCode = c, sp_name = n\<rparr>]\<rparr>) c =
        (\<lparr>status = 200, payload = SpaceBody \<lparr>sp_SpCode = c, sp_name = n\<rparr>\<rparr>,
         st\<lparr>spaces := spaces st @ [\<lparr>sp_SpCode = c, sp_name = n\<rparr>]\<rparr>)"
    by (simp add: get_space_handler_def Space_findOne_def find_append_fresh)
next
  assume h: "b ''SpCode'' = Some (JStr c) \<and> c \<in> set (map sp_SpCode (spaces st))"
  then show "status (fst (create_space_handler e st b)) = 400"
    by (auto simp: create_space_handler_def Space_save_def new_Space_def new_string_def Let_def
        split: option.splits sum.splits bson.splits if_splits Option.bind_splits)
  from h show "snd (create_space_handler e st b) = st"
    by (auto simp: create_space_handler_def Space_save_def new_Space_def new_string_def Let_def
        split: option.splits sum.splits bson.splits if_splits Option.bind_splits)
qed

text \<open>
  An instance: the space \<open>W1\<close> is created in the empty store, read back, and refused the
  second time.
\<close>

theorem create_then_get_space_witness:
  "create_space_handler sample_env empty_store sample_space_body =
     (\<lparr>status = 201, payload = SpaceBody \<lparr>sp_SpCode = ''W1'', sp_name = ''Acme''\<rparr>\<rparr>,
      empty_store\<lparr>spaces := [\<lparr>sp_SpCode = ''W1'', sp_name = ''Acme''\<rparr>]\<rparr>) \<and>
   get_space_handler sample_env (empty_store\<lparr>spaces := [\<lparr>sp_SpCode = ''W1'', sp_name = ''Acme''\<rparr>]\<rparr>) ''W1'' =
     (\<lparr>status = 200, payload = SpaceBody \<lparr>sp_SpCode = ''W1'', sp_name = ''Acme''\<rparr>\<rparr>,
      empty_store\<lparr>spaces := [\<lparr>sp_SpCode = ''W1'', sp_name = ''Acme''\<rparr>]\<rparr>) \<and>
   status (fst (create_space_handler sample_env
      (empty_store\<lparr>spaces := [\<lparr>sp_SpCode = ''W1'', sp_name = ''Acme''\<rparr>]\<rparr>) sample_space_body)) = 400"
  using create_then_get_space [of sample_env sample_space_body "''W1''" "''Acme''" empty_store]
    create_then_get_space [of sample_env sample_space_body "''W1''" "''Acme''"
      "empty_store\<lparr>spaces := [\<lparr>sp_SpCode = ''W1'', sp_name = ''Acme''\<rparr>]\<rparr>"]
  by (simp add: sample_env_def sample_space_body_def body_of_def empty_store_def)

subsection \<open>Commenting on a task\<close>

text \<open>
  Claim C6. When \<open>author\<close> and \<open>text\<close> are truthy, the store answers and no stored task has
  the workspace code and task id of the route, the handler answers 404 and the store is
  unchanged (no task is created). When \<open>author\<close> or \<open>text\<close> is missing or falsy, the
  handler answers 400 and the store is unchanged.
\<close>

theorem comment_on_missing_task:
  "(truthy (b ''author'') \<and> truthy (b ''text'') \<and> store_fault e = None \<and>
    \<not> (\<exists>t \<in> set (tasks st). tk_SpCode t = c \<and> tk_taskId t = tid) \<longrightarrow>
      add_task_comment_handler e st c tid b =
        (\<lparr>status = 404, payload = ErrorBody ''Task not found'' None\<rparr>, st)) \<and>
   (\<not> truthy (b ''author'') \<or> \<not> truthy (b ''text'') \<longrightarrow>
      add_task_comment_handler e st c tid b =
        (\<lparr>status = 400, payload = ErrorBody ''Author, and text are required'' None\<rparr>, st))"
proof (intro conjI impI)
  assume h: "truthy (b ''author'') \<and> truthy (b ''text'') \<and> store_fault e = None \<and>
    \<not> (\<exists>t \<in> set (tasks st). tk_SpCode t = c \<and> tk_taskId t = tid)"
  then have "find (\<lambda>t. tk_SpCode t = c \<and> tk_taskId t = tid) (tasks st) = None"
    by (simp add: find_None_iff)
  with h show "add_task_comment_handler e st c tid b =
        (\<lparr>status = 404, payload = ErrorBody ''Task not found'' None\<rparr>, st)"
    by (simp add: add_task_comment_handler_def Task_findOne_def)
next
  assume "\<not> truthy (b ''author'') \<or> \<not> truthy (b ''text'')"
  then show "add_task_comment_handler e st c tid b =
        (\<lparr>status = 400, payload = ErrorBody ''Author, and text are required'' None\<rparr>, st)"
    unfolding add_task_comment_handler_def Let_def by (simp only: if_True)
qed

text \<open>An instance: a comment for the unknown task \<open>T2\<close>, and a comment without text.\<close>

theorem comment_on_missing_task_witness:
  "add_task_comment_handler sample_env (empty_store\<lparr>tasks := [sample_task]\<rparr>) ''W1'' ''T2''
      (body_of [(''author'', JStr ''ann''), (''text'', JStr ''hello'')]) =
     (\<lparr>status = 404, payload = ErrorBody ''Task not found'' None\<rparr>,
      empty_store\<lparr>tasks := [sample_task]\<rparr>) \<and>
   add_task_comment_handler sample_env (empty_store\<lparr>tasks := [sample_task]\<rparr>) ''W1'' ''T1''
      (body_of [(''author'', JStr ''ann'')]) =
     (\<lparr>status = 400, payload = ErrorBody ''Author, and text are required'' None\<rparr>,
      empty_store\<lparr>tasks := [sample_task]\<rparr>)"
  using comment_on_missing_task [of "body_of [(''author'', JStr ''ann''), (''text'', JStr ''hello'')]"
      sample_env "empty_store\<lparr>tasks := [sample_task]\<rparr>" "''W1''" "''T2''"]
    comment_on_missing_task [of "body_of [(''author'', JStr ''ann'')]"
      sample_env "empty_store\<lparr>tasks := [sample_task]\<rparr>" "''W1''" "''T1''"]
  by (simp add: body_of_def sample_env_def empty_store_def sample_task_def)

subsection \<open>Listing the children of a space\<close>

text \<open>
  Claim C8. When the store answers and no stored project (task) has the workspace code of
  the route, listing the projects (tasks) answers 200 with the empty array.
\<close>

theorem list_without_children:
  "(store_fault e = None \<and> \<not> (\<exists>p \<in> set (projects st). pr_SpCode p = c) \<longrightarrow>
      list_projects_handler e st c = (\<lparr>status = 200, payload = ProjectList []\<rparr>, st)) \<and>
   (store_fault e = None \<and> \<not> (\<exists>t \<in> set (tasks st). tk_SpCode t = c) \<longrightarrow>
      list_tasks_handler e st c = (\<lparr>status = 200, payload = TaskList []\<rparr>, st))"
  by (auto simp: list_projects_handler_def list_tasks_handler_def Project_find_def Task_find_def
      filter_empty_conv)

text \<open>An instance: the space \<open>W2\<close> has no project and no task.\<close>

theorem list_without_children_witness:
  "list_projects_handler sample_env (empty_store\<lparr>projects := [sample_project]\<rparr>) ''W2'' =
     (\<lparr>status = 200, payload = ProjectList []\<rparr>, empty_store\<lparr>projects := [sample_project]\<rparr>) \<and>
   list_tasks_handler sample_env (empty_store\<lparr>tasks := [sample_task]\<rparr>) ''W2'' =
     (\<lparr>status = 200, payload = TaskList []\<rparr>, empty_store\<lparr>tasks := [sample_task]\<rparr>)"
  using list_without_children [of sample_env "empty_store\<lparr>projects := [sample_project]\<rparr>" "''W2''"]
    list_without_children [of sample_env "empty_store\<lparr>tasks := [sample_task]\<rparr>" "''W2''"]
  by (simp add: sample_env_def empty_store_def sample_project_def sample_task_def)

subsection \<open>Updates keep the codes of a document\<close>

lemma update_first_map:
  "update_first P f xs = Some (y, ys) \<Longrightarrow> (\<And>x. g (f x) = g x) \<Longrightarrow> map g ys = map g xs"
proof (induction xs arbitrary: y ys)
  case Nil
  then show ?case by simp
next
  case (Cons x xs)
  show ?case
  proof (cases "P x")
    case True
    with Cons.prems show ?thesis by auto
  next
    case False
    with Cons.prems obtain zs where "update_first P f xs = Some (y, zs)" and "ys = x # zs"
      by (auto split: option.splits)
    with Cons.IH [of y zs] Cons.prems(2) show ?thesis by simp
  qed
qed

lemma project_set_codes:
  "pr_SpCode (project_set kv p) = pr_SpCode p \<and> pr_projectCode (project_set kv p) = pr_projectCode p"
  by (cases kv; cases "fst kv") auto

lemma fold_project_set_codes:
  "pr_SpCode (fold project_set kvs p) = pr_SpCode p \<and>
   pr_projectCode (fold project_set kvs p) = pr_projectCode p"
  by (induction kvs arbitrary: p) (simp_all add: project_set_codes)

lemma task_set_codes:
  "tk_SpCode (task_set kv t) = tk_SpCode t \<and> tk_projectId (task_set kv t) = tk_projectId t \<and>
   tk_taskId (task_set kv t) = tk_taskId t"
  by (cases kv; cases "fst kv") auto

lemma fold_task_set_codes:
  "tk_SpCode (fold task_set kvs t) = tk_SpCode t \<and> tk_projectId (fold task_set kvs t) = tk_projectId t \<and>
   tk_taskId (fold task_set kvs t) = tk_taskId t"
  by (induction kvs arbitrary: t) (simp_all add: task_set_codes)

lemma Project_findOneAndUpdate_set_codes:
  "Project_findOneAndUpdate e st c pc (PSet kvs) = Inr (r, st') \<Longrightarrow>
   map (\<lambda>p. (pr_SpCode p, pr_projectCode p)) (projects st') =
   map (\<lambda>p. (pr_SpCode p, pr_projectCode p)) (projects st)"
  by (auto simp: Project_findOneAndUpdate_def castProjectUpdate_def fold_project_set_codes
      split: option.splits dest!: update_first_map [where g = "\<lambda>p. (pr_SpCode p, pr_projectCode p)"])

lemma Task_findOneAndUpdate_codes:
  "Task_findOneAndUpdate e st c tid kvs = Inr (r, st') \<Longrightarrow>
   map (\<lambda>t. (tk_SpCode t, tk_projectId t, tk_taskId t)) (tasks st') =
   map (\<lambda>t. (tk_SpCode t, tk_projectId t, tk_taskId t)) (tasks st)"
  by (auto simp: Task_findOneAndUpdate_def fold_task_set_codes
      split: option.splits dest!: update_first_map [where g = "\<lambda>t. (tk_SpCode t, tk_projectId t, tk_taskId t)"])

text \<open>
  Claim C9. Whatever the request, a project update leaves the workspace code and the
  project code of every stored project as they were, and a task update leaves the workspace
  code, the project id and the task id of every stored task as they were: the update is
  built from \<open>name\<close>, \<open>description\<close>, \<open>teamLead\<close>, \<open>members\<close>, \<open>status\<close> (for a task from
  \<open>title\<close>, \<open>status\<close>, \<open>assignedTo\<close>, \<open>priority\<close>, \<open>assignedBy\<close>, \<open>description\<close>,
  \<open>deadline\<close>) only, and two bodies that agree on these keys are handled alike, so that any
  other key of the body is ignored.
\<close>

theorem update_keeps_identity:
  "map (\<lambda>p. (pr_SpCode p, pr_projectCode p)) (projects (snd (update_project_handler e st c pc b))) =
     map (\<lambda>p. (pr_SpCode p, pr_projectCode p)) (projects st) \<and>
   map (\<lambda>t. (tk_SpCode t, tk_projectId t, tk_taskId t)) (tasks (snd (update_task_handler e st c tid b))) =
     map (\<lambda>t. (tk_SpCode t, tk_projectId t, tk_taskId t)) (tasks st) \<and>
   ((\<forall>k \<in> {''name'', ''description'', ''teamLead'', ''members'', ''status''}. b k = b' k) \<longrightarrow>
      update_project_handler e st c pc b = update_project_handler e st c pc b') \<and>
   ((\<forall>k \<in> {''title'', ''status'', ''assignedTo'', ''priority'', ''assignedBy'', ''description'',
            ''deadline''}. b k = b' k) \<longrightarrow>
      update_task_handler e st c tid b = update_task_handler e st c tid b')"
proof (intro conjI impI)
  show "map (\<lambda>p. (pr_SpCode p, pr_projectCode p)) (projects (snd (update_project_handler e st c pc b))) =
     map (\<lambda>p. (pr_SpCode p, pr_projectCode p)) (projects st)"
  proof (cases "Project_findOneAndUpdate e st c pc (PSet (project_update_doc b))")
    case (Inl err)
    then show ?thesis by (simp add: update_project_handler_def)
  next
    case (Inr res)
    obtain r st' where res: "res = (r, st')" by (cases res)
    with Inr Project_findOneAndUpdate_set_codes [of e st c pc "project_update_doc b" r st']
    show ?thesis by (cases r) (simp_all add: update_project_handler_def)
  qed
  show "map (\<lambda>t. (tk_SpCode t, tk_projectId t, tk_taskId t)) (tasks (snd (update_task_handler e st c tid b))) =
     map (\<lambda>t. (tk_SpCode t, tk_projectId t, tk_taskId t)) (tasks st)"
  proof (cases "Task_findOneAndUpdate e st c tid (task_update_doc b)")
    case (Inl err)
    then show ?thesis by (simp add: update_task_handler_def)
  next
    case (Inr res)
    obtain r st' where res: "res = (r, st')" by (cases res)
    with Inr Task_findOneAndUpdate_codes [of e st c tid "task_update_doc b" r st']
    show ?thesis by (cases r) (simp_all add: update_task_handler_def)
  qed
next
  assume "\<forall>k \<in> {''name'', ''description'', ''teamLead'', ''members'', ''status''}. b k = b' k"
  then show "update_project_handler e st c pc b = update_project_handler e st c pc b'"
    by (simp add: update_project_handler_def project_update_doc_def)
next
  assume "\<forall>k \<in> {''title'', ''status'', ''assignedTo'', ''priority'', ''assignedBy'', ''description'',
            ''deadline''}. b k = b' k"
  then show "update_task_handler e st c tid b = update_task_handler e st c tid b'"
    by (simp add: update_task_handler_def task_update_doc_def)
qed

text \<open>
  An instance: a body that also carries \<open>SpCode\<close> and \<open>projectCode\<close> (or \<open>taskId\<close>) is
  handled as the body without them, and the stored project keeps its codes.
\<close>

theorem update_keeps_identity_witness:
  "map (\<lambda>p. (pr_SpCode p, pr_projectCode p))
     (projects (snd (update_project_handler sample_env (empty_store\<lparr>projects := [sample_project]\<rparr>)
        ''W1'' ''P1'' (body_of [(''SpCode'', JStr ''W9''), (''projectCode'', JStr ''P9''), (''name'', JStr ''Shop'')])))) =
     [(''W1'', ''P1'')] \<and>
   update_project_handler sample_env (empty_store\<lparr>projects := [sample_project]\<rparr>) ''W1'' ''P1''
     (body_of [(''SpCode'', JStr ''W9''), (''projectCode'', JStr ''P9''), (''name'', JStr ''Shop'')]) =
   update_project_handler sample_env (empty_store\<lparr>projects := [sample_project]\<rparr>) ''W1'' ''P1''
     (body_of [(''name'', JStr ''Shop'')]) \<and>
   update_task_handler sample_env (empty_store\<lparr>tasks := [sample_task]\<rparr>) ''W1'' ''T1''
     (body_of [(''taskId'', JStr ''T9''), (''title'', JStr ''Final'')]) =
   update_task_handler sample_env (empty_store\<lparr>tasks := [sample_task]\<rparr>) ''W1'' ''T1''
     (body_of [(''title'', JStr ''Final'')])"
proof -
  let ?b = "body_of [(''SpCode'', JStr ''W9''), (''projectCode'', JStr ''P9''), (''name'', JStr ''Shop'')]"
  let ?b' = "body_of [(''name'', JStr ''Shop'')]"
  let ?t = "body_of [(''taskId'', JStr ''T9''), (''title'', JStr ''Final'')]"
  let ?t' = "body_of [(''title'', JStr ''Final'')]"
  note p = update_keeps_identity [where e = sample_env
      and st = "empty_store\<lparr>projects := [sample_project]\<rparr>" and c = "''W1''" and pc = "''P1''"
      and tid = "''T1''" and b = ?b and b' = ?b']
  note t = update_keeps_identity [where e = sample_env
      and st = "empty_store\<lparr>tasks := [sample_task]\<rparr>" and c = "''W1''" and pc = "''P1''"
      and tid = "''T1''" and b = ?t and b' = ?t']
  have "\<forall>k \<in> {''name'', ''description'', ''teamLead'', ''members'', ''status''}. ?b k = ?b' k"
    by (simp add: body_of_def)
  with p have p3: "update_project_handler sample_env (empty_store\<lparr>projects := [sample_project]\<rparr>)
      ''W1'' ''P1'' ?b =
    update_project_handler sample_env (empty_store\<lparr>projects := [sample_project]\<rparr>) ''W1'' ''P1'' ?b'"
    by blast
  have "\<forall>k \<in> {''title'', ''status'', ''assignedTo'', ''priority'', ''assignedBy'', ''description'',
            ''deadline''}. ?t k = ?t' k"
    by (simp add: body_of_def)
  with t have t4: "update_task_handler sample_env (empty_store\<lparr>tasks := [sample_task]\<rparr>) ''W1'' ''T1'' ?t =
    update_task_handler sample_env (empty_store\<lparr>tasks := [sample_task]\<rparr>) ''W1'' ''T1'' ?t'"
    by blast
  from p have p1: "map (\<lambda>p. (pr_SpCode p, pr_projectCode p))
     (projects (snd (update_project_handler sample_env (empty_store\<lparr>projects := [sample_project]\<rparr>)
        ''W1'' ''P1'' ?b))) = [(''W1'', ''P1'')]"
    by (simp add: empty_store_def sample_project_def)
  from p1 p3 t4 show ?thesis by blast
qed

subsection \<open>Creation takes the codes from the body\<close>

lemma new_string_JStr: "new_string e (Some (JStr s)) = (if s = [] then None else Some s)"
  by (simp add: new_string_def)

lemma create_project_201:
  assumes "status (fst (create_project_handler e st p b)) = 201"
  shows "\<exists>d. new_Project e (b ''SpCode'') (b ''projectCode'') (b ''name'') (b ''description'')
              (b ''teamLead'') (b ''members'') (b ''status'') = Some d \<and>
             create_project_handler e st p b =
               (\<lparr>status = 201, payload = ProjectBody d\<rparr>, st\<lparr>projects := projects st @ [d]\<rparr>)"
  using assms
  by (auto simp: create_project_handler_def Let_def Project_save_def
      split: if_splits sum.splits option.splits)

lemma create_task_201:
  assumes "status (fst (create_task_handler e st p b)) = 201"
  shows "\<exists>d. new_Task e (b ''SpCode'') (b ''projectId'') (b ''taskId'') (b ''title'') (b ''status'')
              (b ''assignedTo'') (b ''priority'') (b ''assignedBy'') (b ''description'')
              (b ''deadline'') = Some d \<and>
             create_task_handler e st p b =
               (\<lparr>status = 201, payload = TaskBody d\<rparr>, st\<lparr>tasks := tasks st @ [d]\<rparr>)"
  using assms
  by (auto simp: create_task_handler_def Let_def Task_save_def
      split: if_splits sum.splits option.splits)

lemma new_Project_SpCode:
  "new_Project e (Some (JStr c)) pc n d ld ms s = Some doc \<Longrightarrow> pr_SpCode doc = c"
  by (auto simp: new_Project_def new_string_JStr bind_eq_Some_conv split: if_splits)

lemma new_Task_codes:
  "new_Task e (Some (JStr c)) (Some (JStr pid)) tid ti s ato pri aby d dl = Some doc \<Longrightarrow>
   tk_SpCode doc = c \<and> tk_projectId doc = pid"
  by (auto simp: new_Task_def new_string_JStr bind_eq_Some_conv split: if_splits)

text \<open>
  Claim C10. Create-project and create-task do not read the route parameter: the answer
  and the store are the same for every value of it. When the body's \<open>SpCode\<close> (and, for a
  task, \<open>projectId\<close>) is a string and the answer is 201, the created document is stored
  with that workspace code (and project id). In particular the request sent to the route
  of \<open>W2\<close> with the body's \<open>SpCode\<close> being \<open>W1\<close> stores its project, and its task, under
  \<open>W1\<close>.
\<close>

theorem create_reads_codes_from_body:
  "create_project_handler e st p b = create_project_handler e st p' b \<and>
   create_task_handler e st p b = create_task_handler e st p' b \<and>
   (b ''SpCode'' = Some (JStr c) \<and> status (fst (create_project_handler e st p b)) = 201 \<longrightarrow>
      (\<exists>d. create_project_handler e st p b =
             (\<lparr>status = 201, payload = ProjectBody d\<rparr>, st\<lparr>projects := projects st @ [d]\<rparr>) \<and>
           pr_SpCode d = c)) \<and>
   (b ''SpCode'' = Some (JStr c) \<and> b ''projectId'' = Some (JStr pid) \<and>
    status (fst (create_task_handler e st p b)) = 201 \<longrightarrow>
      (\<exists>d. create_task_handler e st p b =
             (\<lparr>status = 201, payload = TaskBody d\<rparr>, st\<lparr>tasks := tasks st @ [d]\<rparr>) \<and>
           tk_SpCode d = c \<and> tk_projectId d = pid)) \<and>
   (sample_project_body (JArr [JStr ''bob'']) ''SpCode'' = Some (JStr ''W1'') \<and> ''W2'' \<noteq> ''W1'' \<and>
    create_project_handler sample_env empty_store ''W2'' (sample_project_body (JArr [JStr ''bob''])) =
      (\<lparr>status = 201, payload = ProjectBody sample_project\<rparr>,
       empty_store\<lparr>projects := [sample_project]\<rparr>) \<and>
    pr_SpCode sample_project = ''W1'') \<and>
   (sample_task_body ''SpCode'' = Some (JStr ''W1'') \<and> ''W2'' \<noteq> ''W1'' \<and>
    create_task_handler sample_env empty_store ''W2'' sample_task_body =
      (\<lparr>status = 201, payload = TaskBody sample_task\<rparr>, empty_store\<lparr>tasks := [sample_task]\<rparr>) \<and>
    tk_SpCode sample_task = ''W1'')"
proof -
  have c1: "create_project_handler e st p b = create_project_handler e st p' b"
    by (simp add: create_project_handler_def)
  have c2: "create_task_handler e st p b = create_task_handler e st p' b"
    by (simp add: create_task_handler_def)
  have c3: "b ''SpCode'' = Some (JStr c) \<and> status (fst (create_project_handler e st p b)) = 201 \<longrightarrow>
      (\<exists>d. create_project_handler e st p b =
             (\<lparr>status = 201, payload = ProjectBody d\<rparr>, st\<lparr>projects := projects st @ [d]\<rparr>) \<and>
           pr_SpCode d = c)"
  proof
    assume h: "b ''SpCode'' = Some (JStr c) \<and> status (fst (create_project_handler e st p b)) = 201"
    then obtain d where d: "new_Project e (b ''SpCode'') (b ''projectCode'') (b ''name'')
          (b ''description'') (b ''teamLead'') (b ''members'') (b ''status'') = Some d"
      and r: "create_project_handler e st p b =
        (\<lparr>status = 201, payload = ProjectBody d\<rparr>, st\<lparr>projects := projects st @ [d]\<rparr>)"
      using create_project_201 [of e st p b] by blast
    from h d have "pr_SpCode d = c"
      by (simp add: new_Project_SpCode)
    with r show "\<exists>d. create_project_handler e st p b =
               (\<lparr>status = 201, payload = ProjectBody d\<rparr>, st\<lparr>projects := projects st @ [d]\<rparr>) \<and>
             pr_SpCode d = c"
      by blast
  qed
  have c4: "b ''SpCode'' = Some (JStr c) \<and> b ''projectId'' = Some (JStr pid) \<and>
      status (fst (create_task_handler e st p b)) = 201 \<longrightarrow>
      (\<exists>d. create_task_handler e st p b =
             (\<lparr>status = 201, payload = TaskBody d\<rparr>, st\<lparr>tasks := tasks st @ [d]\<rparr>) \<and>
           tk_SpCode d = c \<and> tk_projectId d = pid)"
  proof
    assume h: "b ''SpCode'' = Some (JStr c) \<and> b ''projectId'' = Some (JStr pid) \<and>
      status (fst (create_task_handler e st p b)) = 201"
    then obtain d where d: "new_Task e (b ''SpCode'') (b ''projectId'') (b ''taskId'') (b ''title'')
          (b ''status'') (b ''assignedTo'') (b ''priority'') (b ''assignedBy'') (b ''description'')
          (b ''deadline'') = Some d"
      and r: "create_task_handler e st p b =
        (\<lparr>status = 201, payload = TaskBody d\<rparr>, st\<lparr>tasks := tasks st @ [d]\<rparr>)"
      using create_task_201 [of e st p b] by blast
    from h d have "tk_SpCode d = c \<and> tk_projectId d = pid"
      by (simp add: new_Task_codes)
    with r show "\<exists>d. create_task_handler e st p b =
               (\<lparr>status = 201, payload = TaskBody d\<rparr>, st\<lparr>tasks := tasks st @ [d]\<rparr>) \<and>
             tk_SpCode d = c \<and> tk_projectId d = pid"
      by blast
  qed
  have c5: "sample_project_body (JArr [JStr ''bob'']) ''SpCode'' = Some (JStr ''W1'') \<and> ''W2'' \<noteq> ''W1'' \<and>
      create_project_handler sample_env empty_store ''W2'' (sample_project_body (JArr [JStr ''bob''])) =
        (\<lparr>status = 201, payload = ProjectBody sample_project\<rparr>,
         empty_store\<lparr>projects := [sample_project]\<rparr>) \<and>
      pr_SpCode sample_project = ''W1''"
    by (simp add: create_project_handler_def Project_save_def new_Project_def new_string_def
        new_members_def sample_project_body_def body_of_def sample_env_def empty_store_def
        sample_project_def)
  have c6: "sample_task_body ''SpCode'' = Some (JStr ''W1'') \<and> ''W2'' \<noteq> ''W1'' \<and>
      create_task_handler sample_env empty_store ''W2'' sample_task_body =
        (\<lparr>status = 201, payload = TaskBody sample_task\<rparr>, empty_store\<lparr>tasks := [sample_task]\<rparr>) \<and>
      tk_SpCode sample_task = ''W1''"
    by (simp add: create_task_handler_def Task_save_def new_Task_def new_string_def
        new_date_def sample_task_body_def body_of_def sample_env_def empty_store_def
        sample_task_def sample_cast_def)
  show ?thesis
    by (rule conjI [OF c1 conjI [OF c2 conjI [OF c3 conjI [OF c4 conjI [OF c5 c6]]]]])
qed

text \<open>An instance: both requests of the route of \<open>W2\<close>, stored under \<open>W1\<close>.\<close>

theorem create_reads_codes_from_body_witness:
  "(\<exists>d. create_project_handler sample_env empty_store ''W2'' (sample_project_body (JArr [JStr ''bob''])) =
         (\<lparr>status = 201, payload = ProjectBody d\<rparr>, empty_store\<lparr>projects := projects empty_store @ [d]\<rparr>) \<and>
       pr_SpCode d = ''W1'') \<and>
   (\<exists>d. create_task_handler sample_env empty_store ''W2'' sample_task_body =
         (\<lparr>status = 201, payload = TaskBody d\<rparr>, empty_store\<lparr>tasks := tasks empty_store @ [d]\<rparr>) \<and>
       tk_SpCode d = ''W1'' \<and> tk_projectId d = ''P9'')"
proof -
  note p = create_reads_codes_from_body [where e = sample_env and st = empty_store and p = "''W2''"
      and p' = "''W2''" and b = "sample_project_body (JArr [JStr ''bob''])" and c = "''W1''"
      and pid = "''P9''"]
  note t = create_reads_codes_from_body [where e = sample_env and st = empty_store and p = "''W2''"
      and p' = "''W2''" and b = sample_task_body and c = "''W1''" and pid = "''P9''"]
  have hp: "sample_project_body (JArr [JStr ''bob'']) ''SpCode'' = Some (JStr ''W1'') \<and>
    status (fst (create_project_handler sample_env empty_store ''W2''
      (sample_project_body (JArr [JStr ''bob''])))) = 201"
    using p by simp
  have ht: "sample_task_body ''SpCode'' = Some (JStr ''W1'') \<and>
    sample_task_body ''projectId'' = Some (JStr ''P9'') \<and>
    status (fst (create_task_handler sample_env empty_store ''W2'' sample_task_body)) = 201"
    using t by (simp add: sample_task_body_def body_of_def)
  have "\<exists>d. create_project_handler sample_env empty_store ''W2'' (sample_project_body (JArr [JStr ''bob''])) =
         (\<lparr>status = 201, payload = ProjectBody d\<rparr>, empty_store\<lparr>projects := projects empty_store @ [d]\<rparr>) \<and>
       pr_SpCode d = ''W1''"
    by (rule mp [OF p [THEN conjunct2, THEN conjunct2, THEN conjunct1] hp])
  moreover have "\<exists>d. create_task_handler sample_env empty_store ''W2'' sample_task_body =
         (\<lparr>status = 201, payload = TaskBody d\<rparr>, empty_store\<lparr>tasks := tasks empty_store @ [d]\<rparr>) \<and>
       tk_SpCode d = ''W1'' \<and> tk_projectId d = ''P9''"
    by (rule mp [OF t [THEN conjunct2, THEN conjunct2, THEN conjunct2, THEN conjunct1] ht])
  ultimately show ?thesis by (rule conjI)
qed

subsection \<open>Creating a task without its parents\<close>

text \<open>
  Claim C7, as the code has it. Create-task never looks at the stored workspaces and
  projects: its answer and the tasks it leaves are the same whatever these two collections
  hold. When every required field is truthy, the store answers, the values pass the casts
  and the validation of the schema, and no stored task has the task id, the task is stored
  and the answer is 201 with it, whether or not a project with its \<open>projectId\<close> or a
  workspace with its \<open>SpCode\<close> is stored. The values pass when the nine text fields are
  non-empty strings and the deadline is truthy and casts to a date.
\<close>

theorem create_task_without_parent:
  "(truthy (b ''SpCode'') \<and> truthy (b ''projectId'') \<and> truthy (b ''taskId'') \<and>
    truthy (b ''title'') \<and> truthy (b ''status'') \<and> truthy (b ''assignedTo'') \<and>
    truthy (b ''priority'') \<and> truthy (b ''assignedBy'') \<and> truthy (b ''description'') \<and>
    truthy (b ''deadline'') \<and> store_fault e = None \<and>
    new_Task e (b ''SpCode'') (b ''projectId'') (b ''taskId'') (b ''title'') (b ''status'')
      (b ''assignedTo'') (b ''priority'') (b ''assignedBy'') (b ''description'')
      (b ''deadline'') = Some doc \<and>
    tk_taskId doc \<notin> set (map tk_taskId (tasks st)) \<longrightarrow>
      create_task_handler e st p b =
        (\<lparr>status = 201, payload = TaskBody doc\<rparr>, st\<lparr>tasks := tasks st @ [doc]\<rparr>)) \<and>
   (store_fault e = None \<and>
    b ''SpCode'' = Some (JStr c) \<and> b ''projectId'' = Some (JStr pid) \<and>
    b ''taskId'' = Some (JStr tid) \<and> b ''title'' = Some (JStr ti) \<and> b ''status'' = Some (JStr s) \<and>
    b ''assignedTo'' = Some (JStr ato) \<and> b ''priority'' = Some (JStr pri) \<and>
    b ''assignedBy'' = Some (JStr aby) \<and> b ''description'' = Some (JStr d) \<and>
    b ''deadline'' = Some dl \<and> truthy (Some dl) \<and> cast_path e PDate dl = Some (BDate ms) \<and>
    c \<noteq> [] \<and> pid \<noteq> [] \<and> tid \<noteq> [] \<and> ti \<noteq> [] \<and> s \<noteq> [] \<and> ato \<noteq> [] \<and> pri \<noteq> [] \<and>
    aby \<noteq> [] \<and> d \<noteq> [] \<and>
    tid \<notin> set (map tk_taskId (tasks st)) \<longrightarrow>
      create_task_handler e st p b =
        (\<lparr>status = 201,
          payload = TaskBody
            \<lparr>tk_SpCode = c, tk_projectId = pid, tk_taskId = tid, tk_title = BStr ti,
             tk_status = BStr s, tk_assignedTo = BStr ato, tk_priority = BStr pri,
             tk_assignedBy = BStr aby, tk_description = BStr d, tk_deadline = BDate ms,
             tk_comments = []\<rparr>\<rparr>,
         st\<lparr>tasks := tasks st @
            [\<lparr>tk_SpCode = c, tk_projectId = pid, tk_taskId = tid, tk_title = BStr ti,
              tk_status = BStr s, tk_assignedTo = BStr ato, tk_priority = BStr pri,
              tk_assignedBy = BStr aby, tk_description = BStr d, tk_deadline = BDate ms,
              tk_comments = []\<rparr>]\<rparr>)) \<and>
   fst (create_task_handler e (st\<lparr>spaces := sps, projects := prs\<rparr>) p b) =
     fst (create_task_handler e st p b) \<and>
   tasks (snd (create_task_handler e (st\<lparr>spaces := sps, projects := prs\<rparr>) p b)) =
     tasks (snd (create_task_handler e st p b))"
proof (intro conjI impI)
  assume "truthy (b ''SpCode'') \<and> truthy (b ''projectId'') \<and> truthy (b ''taskId'') \<and>
    truthy (b ''title'') \<and> truthy (b ''status'') \<and> truthy (b ''assignedTo'') \<and>
    truthy (b ''priority'') \<and> truthy (b ''assignedBy'') \<and> truthy (b ''description'') \<and>
    truthy (b ''deadline'') \<and> store_fault e = None \<and>
    new_Task e (b ''SpCode'') (b ''projectId'') (b ''taskId'') (b ''title'') (b ''status'')
      (b ''assignedTo'') (b ''priority'') (b ''assignedBy'') (b ''description'')
      (b ''deadline'') = Some doc \<and>
    tk_taskId doc \<notin> set (map tk_taskId (tasks st))"
  then show "create_task_handler e st p b =
        (\<lparr>status = 201, payload = TaskBody doc\<rparr>, st\<lparr>tasks := tasks st @ [doc]\<rparr>)"
    by (simp add: create_task_handler_def Task_save_def)
next
  assume h: "store_fault e = None \<and>
    b ''SpCode'' = Some (JStr c) \<and> b ''projectId'' = Some (JStr pid) \<and>
    b ''taskId'' = Some (JStr tid) \<and> b ''title'' = Some (JStr ti) \<and> b ''status'' = Some (JStr s) \<and>
    b ''assignedTo'' = Some (JStr ato) \<and> b ''priority'' = Some (JStr pri) \<and>
    b ''assignedBy'' = Some (JStr aby) \<and> b ''description'' = Some (JStr d) \<and>
    b ''deadline'' = Some dl \<and> truthy (Some dl) \<and> cast_path e PDate dl = Some (BDate ms) \<and>
    c \<noteq> [] \<and> pid \<noteq> [] \<and> tid \<noteq> [] \<and> ti \<noteq> [] \<and> s \<noteq> [] \<and> ato \<noteq> [] \<and> pri \<noteq> [] \<and>
    aby \<noteq> [] \<and> d \<noteq> [] \<and>
    tid \<notin> set (map tk_taskId (tasks st))"
  then show "create_task_handler e st p b =
        (\<lparr>status = 201,
          payload = TaskBody
            \<lparr>tk_SpCode = c, tk_projectId = pid, tk_taskId = tid, tk_title = BStr ti,
             tk_status = BStr s, tk_assignedTo = BStr ato, tk_priority = BStr pri,
             tk_assignedBy = BStr aby, tk_description = BStr d, tk_deadline = BDate ms,
             tk_comments = []\<rparr>\<rparr>,
         st\<lparr>tasks := tasks st @
            [\<lparr>tk_SpCode = c, tk_projectId = pid, tk_taskId = tid, tk_title = BStr ti,
              tk_status = BStr s, tk_assignedTo = BStr ato, tk_priority = BStr pri,
              tk_assignedBy = BStr aby, tk_description = BStr d, tk_deadline = BDate ms,
              tk_comments = []\<rparr>]\<rparr>)"
    by (simp add: create_task_handler_def Task_save_def new_Task_def new_string_def new_date_def)
next
  show "fst (create_task_handler e (st\<lparr>spaces := sps, projects := prs\<rparr>) p b) =
     fst (create_task_handler e st p b)"
    by (simp add: create_task_handler_def Task_save_def Let_def split: option.splits)
  show "tasks (snd (create_task_handler e (st\<lparr>spaces := sps, projects := prs\<rparr>) p b)) =
     tasks (snd (create_task_handler e st p b))"
    by (simp add: create_task_handler_def Task_save_def Let_def split: option.splits)
qed

text \<open>An instance: the task of project \<open>P9\<close> is created in a store without any project.\<close>

theorem create_task_without_parent_witness:
  "create_task_handler sample_env empty_store ''W1'' sample_task_body =
     (\<lparr>status = 201, payload = TaskBody sample_task\<rparr>, empty_store\<lparr>tasks := [sample_task]\<rparr>) \<and>
   projects empty_store = [] \<and> spaces empty_store = []"
  using create_task_without_parent [where e = sample_env and st = empty_store and p = "''W1''"
      and b = sample_task_body and c = "''W1''" and pid = "''P9''" and tid = "''T1''"
      and ti = "''Draft''" and s = "''todo''" and ato = "''bob''" and pri = "''high''"
      and aby = "''ann''" and d = "''Write it''" and dl = "JNum 1700000600000"
      and ms = 1700000600000 and sps = "[]" and prs = "[]" and doc = sample_task]
  by (simp add: sample_task_body_def body_of_def sample_env_def sample_cast_def empty_store_def
      sample_task_def)

text \<open>
  Against C7 as stated: every required field of the request is truthy, but a stored task
  has its task id; the unique index refuses the task and the answer is 500.
\<close>

theorem create_task_duplicate_counterexample:
  "create_task_handler sample_env (empty_store\<lparr>tasks := [sample_task]\<rparr>) ''W1'' sample_task_body =
     (\<lparr>status = 500, payload = ErrorBody ''Error creating task'' (Some DuplicateKey)\<rparr>,
      empty_store\<lparr>tasks := [sample_task]\<rparr>)"
  by (simp add: create_task_handler_def Task_save_def new_Task_def new_string_def new_date_def
      sample_task_body_def body_of_def sample_env_def sample_cast_def empty_store_def
      sample_task_def)

subsection \<open>Answers to a failing store\<close>

text \<open>
  Claim C3, as the code has it. When the store call of a handler throws: the five reading
  handlers answer 500 with their fixed message and no \<^verbatim>\<open>details\<close>; create-space,
  create-project, update-project, update-task, add-project-comment and add-task-comment
  answer 400 with their fixed message and the store's error as \<^verbatim>\<open>details\<close>; create-task
  answers with its fixed message and the store's error as \<^verbatim>\<open>details\<close>. In each case the
  store is unchanged.
\<close>

theorem store_error_responses:
  "(Space_findOne e st c = Inl err \<longrightarrow>
      get_space_handler e st c =
        (\<lparr>status = 500, payload = ErrorBody ''Error fetching Space details'' None\<rparr>, st)) \<and>
   (Project_find e st c = Inl err \<longrightarrow>
      list_projects_handler e st c =
        (\<lparr>status = 500, payload = ErrorBody ''Failed to fetch projects'' None\<rparr>, st)) \<and>
   (Project_findOne e st c pc = Inl err \<longrightarrow>
      get_project_handler e st c pc =
        (\<lparr>status = 500, payload = ErrorBody ''Error fetching project details'' None\<rparr>, st)) \<and>
   (Task_find e st c = Inl err \<longrightarrow>
      list_tasks_handler e st c =
        (\<lparr>status = 500, payload = ErrorBody ''Failed to fetch tasks'' None\<rparr>, st)) \<and>
   (Task_findOne e st c tid = Inl err \<longrightarrow>
      get_task_handler e st c tid =
        (\<lparr>status = 500, payload = ErrorBody ''Error fetching task details'' None\<rparr>, st)) \<and>
   (truthy (b ''SpCode'') \<and> truthy (b ''name'') \<and>
    Space_save e st (new_Space e (b ''SpCode'') (b ''name'')) = Inl err \<longrightarrow>
      create_space_handler e st b =
        (\<lparr>status = 400, payload = ErrorBody ''Error creating Space'' (Some err)\<rparr>, st)) \<and>
   (truthy (b ''SpCode'') \<and> truthy (b ''projectCode'') \<and> truthy (b ''name'') \<and>
    truthy (b ''description'') \<and> truthy (b ''teamLead'') \<and> truthy (b ''members'') \<and>
    truthy (b ''status'') \<and>
    Project_save e st (new_Project e (b ''SpCode'') (b ''projectCode'') (b ''name'')
      (b ''description'') (b ''teamLead'') (b ''members'') (b ''status'')) = Inl err \<longrightarrow>
      create_project_handler e st c b =
        (\<lparr>status = 400, payload = ErrorBody ''Error creating project'' (Some err)\<rparr>, st)) \<and>
   ((truthy (b ''name'') \<or> truthy (b ''description'') \<or> truthy (b ''teamLead'') \<or>
     truthy (b ''members'') \<or> truthy (b ''status'')) \<and>
    Project_findOneAndUpdate e st c pc (PSet (project_update_doc b)) = Inl err \<longrightarrow>
      update_project_handler e st c pc b =
        (\<lparr>status = 400, payload = ErrorBody ''Error updating project'' (Some err)\<rparr>, st)) \<and>
   ((truthy (b ''title'') \<or> truthy (b ''status'') \<or> truthy (b ''assignedTo'') \<or>
     truthy (b ''priority'') \<or> truthy (b ''assignedBy'') \<or> truthy (b ''description'') \<or>
     truthy (b ''deadline'')) \<and>
    Task_findOneAndUpdate e st c tid (task_update_doc b) = Inl err \<longrightarrow>
      update_task_handler e st c tid b =
        (\<lparr>status = 400, payload = ErrorBody ''Error updating task'' (Some err)\<rparr>, st)) \<and>
   (truthy (b ''comment'') \<and>
    Project_findOneAndUpdate e st c pc (PPush_comment (b ''comment'') (now e)) = Inl err \<longrightarrow>
      add_project_comment_handler e st c pc b =
        (\<lparr>status = 400, payload = ErrorBody ''Error adding comment to project'' (Some err)\<rparr>, st)) \<and>
   (truthy (b ''author'') \<and> truthy (b ''text'') \<and>
    (Task_findOne e st c tid = Inl err \<or>
     (\<exists>t. Task_findOne e st c tid = Inr (Some t) \<and>
          Task_save_changed e st (comments_push e t (b ''author'') (b ''text'') (now e)) = Inl err)) \<longrightarrow>
      add_task_comment_handler e st c tid b =
        (\<lparr>status = 400, payload = ErrorBody ''Error adding comment to task'' (Some err)\<rparr>, st)) \<and>
   (truthy (b ''SpCode'') \<and> truthy (b ''projectId'') \<and> truthy (b ''taskId'') \<and>
    truthy (b ''title'') \<and> truthy (b ''status'') \<and> truthy (b ''assignedTo'') \<and>
    truthy (b ''priority'') \<and> truthy (b ''assignedBy'') \<and> truthy (b ''description'') \<and>
    truthy (b ''deadline'') \<and>
    Task_save e st (new_Task e (b ''SpCode'') (b ''projectId'') (b ''taskId'') (b ''title'')
      (b ''status'') (b ''assignedTo'') (b ''priority'') (b ''assignedBy'') (b ''description'')
      (b ''deadline'')) = Inl err \<longrightarrow>
      payload (fst (create_task_handler e st c b)) = ErrorBody ''Error creating task'' (Some err) \<and>
      snd (create_task_handler e st c b) = st)"
proof -
  have r1: "Space_findOne e st c = Inl err \<longrightarrow>
      get_space_handler e st c =
        (\<lparr>status = 500, payload = ErrorBody ''Error fetching Space details'' None\<rparr>, st)"
    by (simp add: get_space_handler_def)
  have r2: "Project_find e st c = Inl err \<longrightarrow>
      list_projects_handler e st c =
        (\<lparr>status = 500, payload = ErrorBody ''Failed to fetch projects'' None\<rparr>, st)"
    by (simp add: list_projects_handler_def)
  have r3: "Project_findOne e st c pc = Inl err \<longrightarrow>
      get_project_handler e st c pc =
        (\<lparr>status = 500, payload = ErrorBody ''Error fetching project details'' None\<rparr>, st)"
    by (simp add: get_project_handler_def)
  have r4: "Task_find e st c = Inl err \<longrightarrow>
      list_tasks_handler e st c =
        (\<lparr>status = 500, payload = ErrorBody ''Failed to fetch tasks'' None\<rparr>, st)"
    by (simp add: list_tasks_handler_def)
  have r5: "Task_findOne e st c tid = Inl err \<longrightarrow>
      get_task_handler e st c tid =
        (\<lparr>status = 500, payload = ErrorBody ''Error fetching task details'' None\<rparr>, st)"
    by (simp add: get_task_handler_def)
  have w1: "truthy (b ''SpCode'') \<and> truthy (b ''name'') \<and>
    Space_save e st (new_Space e (b ''SpCode'') (b ''name'')) = Inl err \<longrightarrow>
      create_space_handler e st b =
        (\<lparr>status = 400, payload = ErrorBody ''Error creating Space'' (Some err)\<rparr>, st)"
    by (simp add: create_space_handler_def)
  have w2: "truthy (b ''SpCode'') \<and> truthy (b ''projectCode'') \<and> truthy (b ''name'') \<and>
    truthy (b ''description'') \<and> truthy (b ''teamLead'') \<and> truthy (b ''members'') \<and>
    truthy (b ''status'') \<and>
    Project_save e st (new_Project e (b ''SpCode'') (b ''projectCode'') (b ''name'')
      (b ''description'') (b ''teamLead'') (b ''members'') (b ''status'')) = Inl err \<longrightarrow>
      create_project_handler e st c b =
        (\<lparr>status = 400, payload = ErrorBody ''Error creating project'' (Some err)\<rparr>, st)"
    by (simp add: create_project_handler_def)
  have w3: "(truthy (b ''name'') \<or> truthy (b ''description'') \<or> truthy (b ''teamLead'') \<or>
     truthy (b ''members'') \<or> truthy (b ''status'')) \<and>
    Project_findOneAndUpdate e st c pc (PSet (project_update_doc b)) = Inl err \<longrightarrow>
      update_project_handler e st c pc b =
        (\<lparr>status = 400, payload = ErrorBody ''Error updating project'' (Some err)\<rparr>, st)"
    by (auto simp: update_project_handler_def)
  have w4: "(truthy (b ''title'') \<or> truthy (b ''status'') \<or> truthy (b ''assignedTo'') \<or>
     truthy (b ''priority'') \<or> truthy (b ''assignedBy'') \<or> truthy (b ''description'') \<or>
     truthy (b ''deadline'')) \<and>
    Task_findOneAndUpdate e st c tid (task_update_doc b) = Inl err \<longrightarrow>
      update_task_handler e st c tid b =
        (\<lparr>status = 400, payload = ErrorBody ''Error updating task'' (Some err)\<rparr>, st)"
    by (auto simp: update_task_handler_def)
  have w5: "truthy (b ''comment'') \<and>
    Project_findOneAndUpdate e st c pc (PPush_comment (b ''comment'') (now e)) = Inl err \<longrightarrow>
      add_project_comment_handler e st c pc b =
        (\<lparr>status = 400, payload = ErrorBody ''Error adding comment to project'' (Some err)\<rparr>, st)"
    by (simp add: add_project_comment_handler_def)
  have w6: "truthy (b ''author'') \<and> truthy (b ''text'') \<and>
    (Task_findOne e st c tid = Inl err \<or>
     (\<exists>t. Task_findOne e st c tid = Inr (Some t) \<and>
          Task_save_changed e st (comments_push e t (b ''author'') (b ''text'') (now e)) = Inl err)) \<longrightarrow>
      add_task_comment_handler e st c tid b =
        (\<lparr>status = 400, payload = ErrorBody ''Error adding comment to task'' (Some err)\<rparr>, st)"
    by (auto simp: add_task_comment_handler_def)
  have ct: "truthy (b ''SpCode'') \<and> truthy (b ''projectId'') \<and> truthy (b ''taskId'') \<and>
    truthy (b ''title'') \<and> truthy (b ''status'') \<and> truthy (b ''assignedTo'') \<and>
    truthy (b ''priority'') \<and> truthy (b ''assignedBy'') \<and> truthy (b ''description'') \<and>
    truthy (b ''deadline'') \<and>
    Task_save e st (new_Task e (b ''SpCode'') (b ''projectId'') (b ''taskId'') (b ''title'')
      (b ''status'') (b ''assignedTo'') (b ''priority'') (b ''assignedBy'') (b ''description'')
      (b ''deadline'')) = Inl err \<longrightarrow>
      payload (fst (create_task_handler e st c b)) = ErrorBody ''Error creating task'' (Some err) \<and>
      snd (create_task_handler e st c b) = st"
    by (simp add: create_task_handler_def)
  show ?thesis
    by (rule conjI [OF r1 conjI [OF r2 conjI [OF r3 conjI [OF r4 conjI [OF r5 conjI [OF w1
          conjI [OF w2 conjI [OF w3 conjI [OF w4 conjI [OF w5 conjI [OF w6 ct]]]]]]]]]]])
qed

text \<open>An instance: the store of \<open>sample_env_down\<close> refuses every call.\<close>

theorem store_error_responses_witness:
  "get_space_handler sample_env_down sample_store ''W1'' =
     (\<lparr>status = 500, payload = ErrorBody ''Error fetching Space details'' None\<rparr>, sample_store) \<and>
   list_projects_handler sample_env_down sample_store ''W1'' =
     (\<lparr>status = 500, payload = ErrorBody ''Failed to fetch projects'' None\<rparr>, sample_store) \<and>
   get_project_handler sample_env_down sample_store ''W1'' ''P1'' =
     (\<lparr>status = 500, payload = ErrorBody ''Error fetching project details'' None\<rparr>, sample_store) \<and>
   list_tasks_handler sample_env_down sample_store ''W1'' =
     (\<lparr>status = 500, payload = ErrorBody ''Failed to fetch tasks'' None\<rparr>, sample_store) \<and>
   get_task_handler sample_env_down sample_store ''W1'' ''T1'' =
     (\<lparr>status = 500, payload = ErrorBody ''Error fetching task details'' None\<rparr>, sample_store) \<and>
   create_space_handler sample_env_down sample_store sample_full_body =
     (\<lparr>status = 400,
       payload = ErrorBody ''Error creating Space'' (Some (DriverError ''connection refused''))\<rparr>,
      sample_store) \<and>
   create_project_handler sample_env_down sample_store ''W1'' sample_full_body =
     (\<lparr>status = 400,
       payload = ErrorBody ''Error creating project'' (Some (DriverError ''connection refused''))\<rparr>,
      sample_store) \<and>
   update_project_handler sample_env_down sample_store ''W1'' ''P1'' sample_full_body =
     (\<lparr>status = 400,
       payload = ErrorBody ''Error updating project'' (Some (DriverError ''connection refused''))\<rparr>,
      sample_store) \<and>
   update_task_handler sample_env_down sample_store ''W1'' ''T1'' sample_full_body =
     (\<lparr>status = 400,
       payload = ErrorBody ''Error updating task'' (Some (DriverError ''connection refused''))\<rparr>,
      sample_store) \<and>
   add_project_comment_handler sample_env_down sample_store ''W1'' ''P1'' sample_full_body =
     (\<lparr>status = 400,
       payload = ErrorBody ''Error adding comment to project'' (Some (DriverError ''connection refused''))\<rparr>,
      sample_store) \<and>
   add_task_comment_handler sample_env_down sample_store ''W1'' ''T1'' sample_full_body =
     (\<lparr>status = 400,
       payload = ErrorBody ''Error adding comment to task'' (Some (DriverError ''connection refused''))\<rparr>,
      sample_store) \<and>
   payload (fst (create_task_handler sample_env_down sample_store ''W1'' sample_full_body)) =
     ErrorBody ''Error creating task'' (Some (DriverError ''connection refused''))"
  using store_error_responses [where e = sample_env_down and st = sample_store and c = "''W1''"
      and pc = "''P1''" and tid = "''T1''" and b = sample_full_body
      and err = "DriverError ''connection refused''"]
  by (simp add: Space_findOne_def Project_find_def Project_findOne_def Task_find_def
      Task_findOne_def Space_save_def Project_save_def Task_save_def
      Project_findOneAndUpdate_def Task_findOneAndUpdate_def castProjectUpdate_def
      project_update_doc_def task_update_doc_def new_Space_def new_Project_def new_Task_def
      new_string_def new_members_def new_date_def sample_env_down_def sample_env_def
      sample_cast_def sample_full_body_def body_of_def)

text \<open>
  Against C3 as stated: with the failing store, create-task answers 500, not 400, and
  get-space answers without \<^verbatim>\<open>details\<close>.
\<close>

theorem store_error_status_counterexample:
  "create_task_handler sample_env_down sample_store ''W1'' sample_full_body =
     (\<lparr>status = 500,
       payload = ErrorBody ''Error creating task'' (Some (DriverError ''connection refused''))\<rparr>,
      sample_store) \<and>
   get_space_handler sample_env_down sample_store ''W1'' =
     (\<lparr>status = 500, payload = ErrorBody ''Error fetching Space details'' None\<rparr>, sample_store)"
  by (simp add: create_task_handler_def get_space_handler_def Space_findOne_def Task_save_def
      new_Task_def new_string_def new_date_def sample_env_down_def sample_env_def
      sample_cast_def sample_full_body_def body_of_def)

subsection \<open>Updating a project\<close>

lemma update_first_found:
  "find P xs = Some x \<Longrightarrow> P (f x) \<Longrightarrow>
   \<exists>ys. update_first P f xs = Some (f x, ys) \<and> find P ys = Some (f x)"
proof (induction xs)
  case Nil
  then show ?case by simp
next
  case (Cons a xs)
  show ?case
  proof (cases "P a")
    case True
    with Cons.prems show ?thesis by simp
  next
    case False
    with Cons.prems have "find P xs = Some x" by simp
    with Cons.IH Cons.prems(2) obtain ys where "update_first P f xs = Some (f x, ys)"
      and "find P ys = Some (f x)" by blast
    with False show ?thesis by simp
  qed
qed

lemma project_set_comments: "pr_comments (project_set kv p) = pr_comments p"
  by (cases kv; cases "fst kv") auto

lemma fold_project_set_comments: "pr_comments (fold project_set kvs p) = pr_comments p"
  by (induction kvs arbitrary: p) (simp_all add: project_set_comments)

lemma castUpdate_fold:
  assumes same: "\<And>k v x. get k (upd (k, v) x) = v"
    and other: "\<And>k k' v x. k \<noteq> k' \<Longrightarrow> get k (upd (k', v) x) = get k x"
  shows "castUpdate e ty kvs = Some sets \<Longrightarrow> distinct (map fst kvs) \<Longrightarrow>
    Some (get k (fold upd sets x)) =
      (case map_of kvs k of
         None \<Rightarrow> Some (get k x)
       | Some None \<Rightarrow> Some (if omit_undefined e then get k x else BNull)
       | Some (Some v) \<Rightarrow> cast_path e (ty k) v)"
proof (induction kvs arbitrary: sets x)
  case Nil
  then show ?case by simp
next
  case (Cons kv kvs)
  obtain k0 v0 where kv: "kv = (k0, v0)" by (cases kv)
  from Cons.prems(2) kv have fresh: "map_of kvs k0 = None" and dist: "distinct (map fst kvs)"
    by (simp_all add: map_of_eq_None_iff)
  show ?case
  proof (cases v0)
    case None
    show ?thesis
    proof (cases "omit_undefined e")
      case True
      with None kv Cons.prems(1) have "castUpdate e ty kvs = Some sets" by simp
      from Cons.IH [OF this dist, of x] None kv True fresh show ?thesis
        by (cases "k = k0") simp_all
    next
      case False
      with None kv Cons.prems(1) obtain z where z: "castUpdate e ty kvs = Some z"
        and sets: "sets = (k0, BNull) # z"
        by auto
      from Cons.IH [OF z dist, of "upd (k0, BNull) x"] None kv False fresh sets show ?thesis
        by (cases "k = k0") (simp_all add: same other split: option.splits)
    qed
  next
    case (Some v)
    with kv Cons.prems(1) obtain w z where w: "cast_path e (ty k0) v = Some w"
      and z: "castUpdate e ty kvs = Some z" and sets: "sets = (k0, w) # z"
      by (auto split: option.splits)
    from Cons.IH [OF z dist, of "upd (k0, w) x"] Some kv fresh sets w show ?thesis
      by (cases "k = k0") (simp_all add: same other split: option.splits)
  qed
qed

lemma project_get_set: "project_get k (project_set (k, v) p) = v"
  by (cases k) (simp_all add: project_get_def)

lemma project_get_set_other: "k \<noteq> k' \<Longrightarrow> project_get k (project_set (k', v) p) = project_get k p"
  by (cases k; cases k') (simp_all add: project_get_def)

lemma project_update_doc_fields:
  assumes "castUpdate e project_key_type (project_update_doc b) = Some sets"
  shows "Some (project_get k (fold project_set sets p)) =
           (case map_of (project_update_doc b) k of
              None \<Rightarrow> Some (project_get k p)
            | Some None \<Rightarrow> Some (if omit_undefined e then project_get k p else BNull)
            | Some (Some v) \<Rightarrow> cast_path e (project_key_type k) v)"
proof -
  have d: "distinct (map fst (project_update_doc b))"
    by (simp add: project_update_doc_def)
  show ?thesis
    by (rule castUpdate_fold [where get = project_get and upd = project_set,
          OF project_get_set project_get_set_other assms d])
qed

text \<open>
  Claim C2, as the code has it. The \<^verbatim>\<open>$set\<close> that update-project builds always has the five
  keys \<open>name\<close>, \<open>description\<close>, \<open>teamLead\<close>, \<open>members\<close>, \<open>status\<close>, those that the body lacks
  bound to \<^verbatim>\<open>undefined\<close>. When all five are falsy in the body the answer is 400 and the store
  is unchanged. When one of them is truthy, the store answers, the project of the route is
  stored and the values cast, the answer is 200 with the updated project, which takes the
  place of the stored one; each field present in the body holds the cast of its new value;
  each field absent from the body is unchanged when the mapper removes \<^verbatim>\<open>undefined\<close> keys
  and \<^verbatim>\<open>null\<close> when it sends them; the codes and the comments are unchanged.
\<close>

theorem update_project_fields:
  "map fst (project_update_doc b) = [K_name, K_description, K_teamLead, K_members, K_status] \<and>
   (\<not> truthy (b ''name'') \<and> \<not> truthy (b ''description'') \<and> \<not> truthy (b ''teamLead'') \<and>
    \<not> truthy (b ''members'') \<and> \<not> truthy (b ''status'') \<longrightarrow>
      update_project_handler e st c pc b =
        (\<lparr>status = 400, payload = ErrorBody ''No fields to update'' None\<rparr>, st)) \<and>
   ((truthy (b ''name'') \<or> truthy (b ''description'') \<or> truthy (b ''teamLead'') \<or>
     truthy (b ''members'') \<or> truthy (b ''status'')) \<and>
    store_fault e = None \<and>
    find (\<lambda>p. pr_SpCode p = c \<and> pr_projectCode p = pc) (projects st) = Some p \<and>
    castUpdate e project_key_type (project_update_doc b) = Some sets \<longrightarrow>
      (\<exists>p' st'.
         update_project_handler e st c pc b = (\<lparr>status = 200, payload = ProjectBody p'\<rparr>, st') \<and>
         find (\<lambda>p. pr_SpCode p = c \<and> pr_projectCode p = pc) (projects st') = Some p' \<and>
         Some (pr_name p') =
           (case b ''name'' of
              None \<Rightarrow> Some (if omit_undefined e then pr_name p else BNull)
            | Some v \<Rightarrow> cast_path e PString v) \<and>
         Some (pr_description p') =
           (case b ''description'' of
              None \<Rightarrow> Some (if omit_undefined e then pr_description p else BNull)
            | Some v \<Rightarrow> cast_path e PString v) \<and>
         Some (pr_teamLead p') =
           (case b ''teamLead'' of
              None \<Rightarrow> Some (if omit_undefined e then pr_teamLead p else BNull)
            | Some v \<Rightarrow> cast_path e PString v) \<and>
         Some (pr_members p') =
           (case b ''members'' of
              None \<Rightarrow> Some (if omit_undefined e then pr_members p else BNull)
            | Some v \<Rightarrow> cast_path e PStringArray v) \<and>
         Some (pr_status p') =
           (case b ''status'' of
              None \<Rightarrow> Some (if omit_undefined e then pr_status p else BNull)
            | Some v \<Rightarrow> cast_path e PString v) \<and>
         pr_SpCode p' = pr_SpCode p \<and> pr_projectCode p' = pr_projectCode p \<and>
         pr_comments p' = pr_comments p))"
proof -
  have keys: "map fst (project_update_doc b) = [K_name, K_description, K_teamLead, K_members, K_status]"
    by (simp add: project_update_doc_def)
  have falsy: "\<not> truthy (b ''name'') \<and> \<not> truthy (b ''description'') \<and> \<not> truthy (b ''teamLead'') \<and>
    \<not> truthy (b ''members'') \<and> \<not> truthy (b ''status'') \<longrightarrow>
      update_project_handler e st c pc b =
        (\<lparr>status = 400, payload = ErrorBody ''No fields to update'' None\<rparr>, st)"
    by (simp add: update_project_handler_def)
  have upd: "(truthy (b ''name'') \<or> truthy (b ''description'') \<or> truthy (b ''teamLead'') \<or>
     truthy (b ''members'') \<or> truthy (b ''status'')) \<and>
    store_fault e = None \<and>
    find (\<lambda>p. pr_SpCode p = c \<and> pr_projectCode p = pc) (projects st) = Some p \<and>
    castUpdate e project_key_type (project_update_doc b) = Some sets \<longrightarrow>
      (\<exists>p' st'.
         update_project_handler e st c pc b = (\<lparr>status = 200, payload = ProjectBody p'\<rparr>, st') \<and>
         find (\<lambda>p. pr_SpCode p = c \<and> pr_projectCode p = pc) (projects st') = Some p' \<and>
         Some (pr_name p') =
           (case b ''name'' of
              None \<Rightarrow> Some (if omit_undefined e then pr_name p else BNull)
            | Some v \<Rightarrow> cast_path e PString v) \<and>
         Some (pr_description p') =
           (case b ''description'' of
              None \<Rightarrow> Some (if omit_undefined e then pr_description p else BNull)
            | Some v \<Rightarrow> cast_path e PString v) \<and>
         Some (pr_teamLead p') =
           (case b ''teamLead'' of
              None \<Rightarrow> Some (if omit_undefined e then pr_teamLead p else BNull)
            | Some v \<Rightarrow> cast_path e PString v) \<and>
         Some (pr_members p') =
           (case b ''members'' of
              None \<Rightarrow> Some (if omit_undefined e then pr_members p else BNull)
            | Some v \<Rightarrow> cast_path e PStringArray v) \<and>
         Some (pr_status p') =
           (case b ''status'' of
              None \<Rightarrow> Some (if omit_undefined e then pr_status p else BNull)
            | Some v \<Rightarrow> cast_path e PString v) \<and>
         pr_SpCode p' = pr_SpCode p \<and> pr_projectCode p' = pr_projectCode p \<and>
         pr_comments p' = pr_comments p)"
  proof
    assume h: "(truthy (b ''name'') \<or> truthy (b ''description'') \<or> truthy (b ''teamLead'') \<or>
       truthy (b ''members'') \<or> truthy (b ''status'')) \<and>
      store_fault e = None \<and>
      find (\<lambda>p. pr_SpCode p = c \<and> pr_projectCode p = pc) (projects st) = Some p \<and>
      castUpdate e project_key_type (project_update_doc b) = Some sets"
    let ?P = "\<lambda>p. pr_SpCode p = c \<and> pr_projectCode p = pc"
    let ?p' = "fold project_set sets p"
    from h have found: "find ?P (projects st) = Some p"
      and cast: "castUpdate e project_key_type (project_update_doc b) = Some sets"
      by simp_all
    from found have "?P p" by (auto simp: find_Some_iff)
    then have "?P ?p'" by (simp add: fold_project_set_codes)
    with found obtain ps' where uf: "update_first ?P (fold project_set sets) (projects st) = Some (?p', ps')"
      and f': "find ?P ps' = Some ?p'"
      using update_first_found [of ?P "projects st" p "fold project_set sets"] by blast
    from h cast uf have res: "update_project_handler e st c pc b =
        (\<lparr>status = 200, payload = ProjectBody ?p'\<rparr>, st\<lparr>projects := ps'\<rparr>)"
      by (auto simp: update_project_handler_def Project_findOneAndUpdate_def castProjectUpdate_def)
    note fld = project_update_doc_fields [OF cast, of _ p]
    have "Some (pr_name ?p') =
           (case b ''name'' of
              None \<Rightarrow> Some (if omit_undefined e then pr_name p else BNull)
            | Some v \<Rightarrow> cast_path e PString v)"
      using fld [of K_name] by (simp add: project_get_def project_update_doc_def split: option.splits)
    moreover have "Some (pr_description ?p') =
           (case b ''description'' of
              None \<Rightarrow> Some (if omit_undefined e then pr_description p else BNull)
            | Some v \<Rightarrow> cast_path e PString v)"
      using fld [of K_description] by (simp add: project_get_def project_update_doc_def split: option.splits)
    moreover have "Some (pr_teamLead ?p') =
           (case b ''teamLead'' of
              None \<Rightarrow> Some (if omit_undefined e then pr_teamLead p else BNull)
            | Some v \<Rightarrow> cast_path e PString v)"
      using fld [of K_teamLead] by (simp add: project_get_def project_update_doc_def split: option.splits)
    moreover have "Some (pr_members ?p') =
           (case b ''members'' of
              None \<Rightarrow> Some (if omit_undefined e then pr_members p else BNull)
            | Some v \<Rightarrow> cast_path e PStringArray v)"
      using fld [of K_members] by (simp add: project_get_def project_update_doc_def split: option.splits)
    moreover have "Some (pr_status ?p') =
           (case b ''status'' of
              None \<Rightarrow> Some (if omit_undefined e then pr_status p else BNull)
            | Some v \<Rightarrow> cast_path e PString v)"
      using fld [of K_status] by (simp add: project_get_def project_update_doc_def split: option.splits)
    moreover have "pr_SpCode ?p' = pr_SpCode p \<and> pr_projectCode ?p' = pr_projectCode p \<and>
         pr_comments ?p' = pr_comments p"
      by (simp add: fold_project_set_codes fold_project_set_comments)
    moreover have "find ?P (projects (st\<lparr>projects := ps'\<rparr>)) = Some ?p'"
      using f' by simp
    ultimately show "\<exists>p' st'.
         update_project_handler e st c pc b = (\<lparr>status = 200, payload = ProjectBody p'\<rparr>, st') \<and>
         find (\<lambda>p. pr_SpCode p = c \<and> pr_projectCode p = pc) (projects st') = Some p' \<and>
         Some (pr_name p') =
           (case b ''name'' of
              None \<Rightarrow> Some (if omit_undefined e then pr_name p else BNull)
            | Some v \<Rightarrow> cast_path e PString v) \<and>
         Some (pr_description p') =
           (case b ''description'' of
              None \<Rightarrow> Some (if omit_undefined e then pr_description p else BNull)
            | Some v \<Rightarrow> cast_path e PString v) \<and>
         Some (pr_teamLead p') =
           (case b ''teamLead'' of
              None \<Rightarrow> Some (if omit_undefined e then pr_teamLead p else BNull)
            | Some v \<Rightarrow> cast_path e PString v) \<and>
         Some (pr_members p') =
           (case b ''members'' of
              None \<Rightarrow> Some (if omit_undefined e then pr_members p else BNull)
            | Some v \<Rightarrow> cast_path e PStringArray v) \<and>
         Some (pr_status p') =
           (case b ''status'' of
              None \<Rightarrow> Some (if omit_undefined e then pr_status p else BNull)
            | Some v \<Rightarrow> cast_path e PString v) \<and>
         pr_SpCode p' = pr_SpCode p \<and> pr_projectCode p' = pr_projectCode p \<and>
         pr_comments p' = pr_comments p"
      using res by (intro exI [of _ ?p'] exI [of _ "st\<lparr>projects := ps'\<rparr>"]) (simp only: simp_thms)
  qed
  show ?thesis
    by (rule conjI [OF keys conjI [OF falsy upd]])
qed

text \<open>
  An instance: the body \<^verbatim>\<open>{name: "Shop"}\<close> sent for the stored project \<open>P1\<close>. When
  \<^verbatim>\<open>undefined\<close> keys are removed only the name is replaced; when they are sent the four other
  fields become \<^verbatim>\<open>null\<close>. The body \<^verbatim>\<open>{name: ""}\<close> is rejected.
\<close>

theorem update_project_fields_witness:
  "(\<exists>p' st'.
      update_project_handler sample_env sample_store ''W1'' ''P1'' (body_of [(''name'', JStr ''Shop'')]) =
        (\<lparr>status = 200, payload = ProjectBody p'\<rparr>, st') \<and>
      find (\<lambda>p. pr_SpCode p = ''W1'' \<and> pr_projectCode p = ''P1'') (projects st') = Some p' \<and>
      pr_name p' = BStr ''Shop'' \<and> pr_description p' = BStr ''New site'' \<and>
      pr_teamLead p' = BStr ''ann'' \<and> pr_members p' = BArr [BStr ''bob''] \<and>
      pr_status p' = BStr ''open'') \<and>
   (\<exists>p' st'.
      update_project_handler (sample_env\<lparr>omit_undefined := False\<rparr>) sample_store ''W1'' ''P1''
          (body_of [(''name'', JStr ''Shop'')]) =
        (\<lparr>status = 200, payload = ProjectBody p'\<rparr>, st') \<and>
      find (\<lambda>p. pr_SpCode p = ''W1'' \<and> pr_projectCode p = ''P1'') (projects st') = Some p' \<and>
      pr_name p' = BStr ''Shop'' \<and> pr_description p' = BNull \<and> pr_teamLead p' = BNull \<and>
      pr_members p' = BNull \<and> pr_status p' = BNull) \<and>
   update_project_handler sample_env sample_store ''W1'' ''P1'' (body_of [(''name'', JStr [])]) =
     (\<lparr>status = 400, payload = ErrorBody ''No fields to update'' None\<rparr>, sample_store)"
proof -
  let ?b = "body_of [(''name'', JStr ''Shop'')]"
  let ?P = "\<lambda>p. pr_SpCode p = ''W1'' \<and> pr_projectCode p = ''P1''"
  note t = update_project_fields [where e = sample_env and st = sample_store and c = "''W1''"
      and pc = "''P1''" and b = ?b and p = sample_project and sets = "[(K_name, BStr ''Shop'')]"]
  note u = update_project_fields [where e = "sample_env\<lparr>omit_undefined := False\<rparr>"
      and st = sample_store and c = "''W1''" and pc = "''P1''" and b = ?b and p = sample_project
      and sets = "[(K_name, BStr ''Shop''), (K_description, BNull), (K_teamLead, BNull),
                   (K_members, BNull), (K_status, BNull)]"]
  note v = update_project_fields [where e = sample_env and st = sample_store and c = "''W1''"
      and pc = "''P1''" and b = "body_of [(''name'', JStr [])]"]
  have ht: "(truthy (?b ''name'') \<or> truthy (?b ''description'') \<or> truthy (?b ''teamLead'') \<or>
      truthy (?b ''members'') \<or> truthy (?b ''status'')) \<and>
    store_fault sample_env = None \<and>
    find ?P (projects sample_store) = Some sample_project \<and>
    castUpdate sample_env project_key_type (project_update_doc ?b) = Some [(K_name, BStr ''Shop'')]"
    by (simp add: body_of_def sample_env_def sample_store_def sample_project_def
        project_update_doc_def)
  have hu: "(truthy (?b ''name'') \<or> truthy (?b ''description'') \<or> truthy (?b ''teamLead'') \<or>
      truthy (?b ''members'') \<or> truthy (?b ''status'')) \<and>
    store_fault (sample_env\<lparr>omit_undefined := False\<rparr>) = None \<and>
    find ?P (projects sample_store) = Some sample_project \<and>
    castUpdate (sample_env\<lparr>omit_undefined := False\<rparr>) project_key_type (project_update_doc ?b) =
      Some [(K_name, BStr ''Shop''), (K_description, BNull), (K_teamLead, BNull),
            (K_members, BNull), (K_status, BNull)]"
    by (simp add: body_of_def sample_env_def sample_store_def sample_project_def
        project_update_doc_def)
  have a: "\<exists>p' st'.
      update_project_handler sample_env sample_store ''W1'' ''P1'' ?b =
        (\<lparr>status = 200, payload = ProjectBody p'\<rparr>, st') \<and>
      find ?P (projects st') = Some p' \<and>
      pr_name p' = BStr ''Shop'' \<and> pr_description p' = BStr ''New site'' \<and>
      pr_teamLead p' = BStr ''ann'' \<and> pr_members p' = BArr [BStr ''bob''] \<and>
      pr_status p' = BStr ''open''"
    using mp [OF t [THEN conjunct2, THEN conjunct2] ht]
    by (auto simp: body_of_def sample_env_def sample_project_def)
  have b: "\<exists>p' st'.
      update_project_handler (sample_env\<lparr>omit_undefined := False\<rparr>) sample_store ''W1'' ''P1'' ?b =
        (\<lparr>status = 200, payload = ProjectBody p'\<rparr>, st') \<and>
      find ?P (projects st') = Some p' \<and>
      pr_name p' = BStr ''Shop'' \<and> pr_description p' = BNull \<and> pr_teamLead p' = BNull \<and>
      pr_members p' = BNull \<and> pr_status p' = BNull"
    using mp [OF u [THEN conjunct2, THEN conjunct2] hu]
    by (auto simp: body_of_def sample_env_def)
  have c: "update_project_handler sample_env sample_store ''W1'' ''P1'' (body_of [(''name'', JStr [])]) =
     (\<lparr>status = 400, payload = ErrorBody ''No fields to update'' None\<rparr>, sample_store)"
    using v [THEN conjunct2, THEN conjunct1] by (simp add: body_of_def)
  show ?thesis
    by (rule conjI [OF a conjI [OF b c]])
qed

text \<open>
  Against C2 as stated: for the body \<^verbatim>\<open>{name: "Shop"}\<close> the update has five keys, four of
  them \<^verbatim>\<open>undefined\<close>; and the body \<^verbatim>\<open>{name: ""}\<close> provides \<open>name\<close>, but the stored name is
  not replaced: the answer is 400.
\<close>

theorem update_project_fields_counterexample:
  "project_update_doc (body_of [(''name'', JStr ''Shop'')]) =
     [(K_name, Some (JStr ''Shop'')), (K_description, None), (K_teamLead, None),
      (K_members, None), (K_status, None)] \<and>
   update_project_handler sample_env sample_store ''W1'' ''P1'' (body_of [(''name'', JStr [])]) =
     (\<lparr>status = 400, payload = ErrorBody ''No fields to update'' None\<rparr>, sample_store)"
  by (simp add: project_update_doc_def update_project_handler_def body_of_def)

end
